theory Spec2Isabelle
  imports Complex_Main "HOL-Library.Char_ord" "HOL-Library.List_Lexorder" "HOL-Library.Multiset"
begin

section \<open>Python values\<close>

text \<open>
  A Python float is a finite binary fraction, an infinity or NaN. Every finite float is a
  rational number, and Python compares floats with each other and with integers by their exact
  values, so finite floats are embedded as rationals. Parsing a decimal string into a float
  (which rounds) is not modelled: it is a parameter of the model.
\<close>

datatype pyfloat = Fin rat | PosInf | NegInf | NaN

datatype pyval =
    VNone
  | VBool bool
  | VInt int
  | VFloat pyfloat
  | VStr string
  | VDict "(string \<times> pyval) list"

datatype exn =
    IllegalConfiguration
  | CalledProcessError
  | FileNotFoundError
  | AttributeError
  | ValueError
  | TypeError
  | OtherError

text \<open>Comparison of floats: every comparison with NaN is false.\<close>

fun float_lt :: "pyfloat \<Rightarrow> pyfloat \<Rightarrow> bool" where
  "float_lt NaN _ = False"
| "float_lt _ NaN = False"
| "float_lt (Fin a) (Fin b) = (a < b)"
| "float_lt NegInf NegInf = False"
| "float_lt NegInf _ = True"
| "float_lt PosInf _ = False"
| "float_lt (Fin a) PosInf = True"
| "float_lt (Fin a) NegInf = False"

fun float_le :: "pyfloat \<Rightarrow> pyfloat \<Rightarrow> bool" where
  "float_le NaN _ = False"
| "float_le _ NaN = False"
| "float_le (Fin a) (Fin b) = (a \<le> b)"
| "float_le NegInf _ = True"
| "float_le PosInf PosInf = True"
| "float_le PosInf _ = False"
| "float_le (Fin a) PosInf = True"
| "float_le (Fin a) NegInf = False"

fun float_neg :: "pyfloat \<Rightarrow> pyfloat" where
  "float_neg (Fin a) = Fin (- a)"
| "float_neg PosInf = NegInf"
| "float_neg NegInf = PosInf"
| "float_neg NaN = NaN"

text \<open>
  \<^verbatim>\<open>max(a, b)\<close> of two arguments keeps \<^verbatim>\<open>a\<close> unless \<^verbatim>\<open>b > a\<close>.
\<close>

definition py_max :: "pyfloat \<Rightarrow> pyfloat \<Rightarrow> pyfloat" where
  "py_max a b = (if float_lt a b then b else a)"

text \<open>
  The numeric reading of a value: \<^verbatim>\<open>bool\<close> is a subclass of \<^verbatim>\<open>int\<close>, and an integer is
  compared with a float by its exact value.
\<close>

fun as_number :: "pyval \<Rightarrow> pyfloat option" where
  "as_number (VBool b) = Some (Fin (if b then 1 else 0))"
| "as_number (VInt i) = Some (Fin (of_int i))"
| "as_number (VFloat f) = Some f"
| "as_number _ = None"

text \<open>
  \<^verbatim>\<open>a > b\<close>: numbers compare with numbers, strings with strings (by code point, which for
  UTF-8 encoded text is the lexicographic order of the bytes); every other pair raises
  \<^verbatim>\<open>TypeError\<close>.
\<close>

definition py_gt :: "pyval \<Rightarrow> pyval \<Rightarrow> exn + bool" where
  "py_gt a b =
     (case (as_number a, as_number b) of
        (Some x, Some y) \<Rightarrow> Inr (float_lt y x)
      | _ \<Rightarrow>
        (case (a, b) of
           (VStr s, VStr t) \<Rightarrow> Inr (t < s)
         | _ \<Rightarrow> Inl TypeError))"

section \<open>Dictionaries\<close>

text \<open>
  A \<^verbatim>\<open>dict\<close> whose iteration order matters is an association list with distinct keys in
  insertion order; assignment replaces the value in place or appends the new key.
\<close>

fun dict_set :: "'k \<Rightarrow> 'v \<Rightarrow> ('k \<times> 'v) list \<Rightarrow> ('k \<times> 'v) list" where
  "dict_set k v [] = [(k, v)]"
| "dict_set k v (p # ps) = (if fst p = k then (k, v) # ps else p # dict_set k v ps)"

text \<open>
  A \<^verbatim>\<open>defaultdict\<close>: reading a missing key stores the default under it and returns it.
\<close>

definition dd_value :: "('k \<rightharpoonup> 'v) \<Rightarrow> 'k \<Rightarrow> 'v \<Rightarrow> 'v" where
  "dd_value m k d = (case m k of None \<Rightarrow> d | Some v \<Rightarrow> v)"

definition dd_touch :: "('k \<rightharpoonup> 'v) \<Rightarrow> 'k \<Rightarrow> 'v \<Rightarrow> ('k \<rightharpoonup> 'v)" where
  "dd_touch m k d = (case m k of None \<Rightarrow> m(k \<mapsto> d) | Some v \<Rightarrow> m)"

section \<open>collect-instances.py\<close>

definition RUNTIME_BOUNDS :: "int list" where
  "RUNTIME_BOUNDS = [1, 10, 20, 50, 100, 200, 500, 1000, 2000, 5000, 10000]"

text \<open>
  \<^verbatim>\<open>record_max_values(parameters, max_domain_values)\<close>: the loop over
  \<^verbatim>\<open>parameters.items()\<close>. The comparison is only evaluated when the key is present.
\<close>

fun record_max_values ::
  "(string \<times> pyval) list \<Rightarrow> (string \<rightharpoonup> pyval) \<Rightarrow> exn + (string \<rightharpoonup> pyval)" where
  "record_max_values [] max_domain_values = Inr max_domain_values"
| "record_max_values ((key, val) # rest) max_domain_values =
     (case max_domain_values key of
        None \<Rightarrow> record_max_values rest (max_domain_values(key \<mapsto> val))
      | Some old \<Rightarrow>
        (case py_gt val old of
           Inl e \<Rightarrow> Inl e
         | Inr True \<Rightarrow> record_max_values rest (max_domain_values(key \<mapsto> val))
         | Inr False \<Rightarrow> record_max_values rest max_domain_values))"

text \<open>
  \<^verbatim>\<open>runtime <= bound\<close> for the \<^verbatim>\<open>runtime\<close> field of a record, which is a float or
  \<^verbatim>\<open>None\<close>; comparing \<^verbatim>\<open>None\<close> with an integer raises \<^verbatim>\<open>TypeError\<close>.
\<close>

definition runtime_le :: "pyfloat option \<Rightarrow> int \<Rightarrow> exn + bool" where
  "runtime_le runtime bound =
     (case runtime of
        None \<Rightarrow> Inl TypeError
      | Some r \<Rightarrow> Inr (float_le r (Fin (of_int bound))))"

text \<open>
  \<^verbatim>\<open>record_runtime(domain_runtimes, runtime)\<close>: the loop over the bounds, left at the
  first bound that is not below the runtime.
\<close>

fun record_runtime_loop ::
  "int list \<Rightarrow> (int \<rightharpoonup> int) \<Rightarrow> pyfloat option \<Rightarrow> exn + (int \<rightharpoonup> int)" where
  "record_runtime_loop [] domain_runtimes runtime = Inr domain_runtimes"
| "record_runtime_loop (bound # bounds) domain_runtimes runtime =
     (case runtime_le runtime bound of
        Inl e \<Rightarrow> Inl e
      | Inr True \<Rightarrow>
          Inr (domain_runtimes(bound \<mapsto> dd_value domain_runtimes bound 0 + 1))
      | Inr False \<Rightarrow> record_runtime_loop bounds domain_runtimes runtime)"

definition record_runtime :: "(int \<rightharpoonup> int) \<Rightarrow> pyfloat option \<Rightarrow> exn + (int \<rightharpoonup> int)" where
  "record_runtime domain_runtimes runtime =
     record_runtime_loop RUNTIME_BOUNDS domain_runtimes runtime"

text \<open>
  \<^verbatim>\<open>str\<close> of an integer (the seed inside the f-string), and \<^verbatim>\<open>sep.join(items)\<close>.
\<close>

definition digit_char :: "nat \<Rightarrow> char" where
  "digit_char d = ''0123456789'' ! d"

function str_nat :: "nat \<Rightarrow> string" where
  "str_nat n = (if n < 10 then [digit_char n] else str_nat (n div 10) @ [digit_char (n mod 10)])"
  by pat_completeness auto
termination
  by (relation "measure id") auto

definition str_int :: "int \<Rightarrow> string" where
  "str_int i = (if i < 0 then ''-'' @ str_nat (nat (- i)) else str_nat (nat i))"

fun join_str :: "string \<Rightarrow> string list \<Rightarrow> string" where
  "join_str sep [] = []"
| "join_str sep [x] = x"
| "join_str sep (x # y # ys) = x @ sep @ join_str sep (y # ys)"

text \<open>
  The run record read from \<^verbatim>\<open>properties.json\<close>. The only writer of that file is
  \<^verbatim>\<open>store_results\<close> of generate-instances.py, so the record has its five keys with the types
  written there: the domain name, the dictionary of parameters, the integer seed, the integer
  exit code and the runtime, a float or \<^verbatim>\<open>null\<close>.
\<close>

record props =
  p_domain :: string
  p_parameters :: "(string \<times> pyval) list"
  p_seed :: int
  p_planner_exitcode :: int
  p_runtime :: "pyfloat option"

text \<open>
  A plan directory of the experiment: its files, \<open>None\<close> for a file that does not exist.
\<close>

record plan_dir =
  properties_json :: "props option"
  problem_pddl :: "string option"
  domain_pddl :: "string option"

text \<open>
  What collect-instances.py takes from outside, as parameters of the model: the MD5 digest of
  \<^verbatim>\<open>hashlib\<close> (as a function from the text to its hexadecimal digest) and
  \<^verbatim>\<open>utils.join_parameters\<close>.
\<close>

record externals =
  md5_hexdigest :: "string \<Rightarrow> string"
  join_parameters :: "(string \<times> pyval) list \<Rightarrow> string"

text \<open>
  The state of \<^verbatim>\<open>main\<close>: its three \<^verbatim>\<open>defaultdict\<close>s and the destination tree, given by
  the directories \<^verbatim>\<open>destdir/<name>\<close> that exist and the content of each file
  \<^verbatim>\<open>destdir/<directory>/<file>\<close>; a domain name and a file name are single path
  components. Output on the terminal is not part of the state.
\<close>

record collect_state =
  max_values :: "string \<rightharpoonup> (string \<rightharpoonup> pyval)"
  seen_task_hashes :: "string \<rightharpoonup> string set"
  seen_runtimes :: "string \<rightharpoonup> (int \<rightharpoonup> int)"
  dest_dirs :: "string set"
  dest_files :: "(string \<times> string) \<rightharpoonup> string"

definition compute_md5_hash :: "externals \<Rightarrow> string \<Rightarrow> string" where
  "compute_md5_hash ext s = md5_hexdigest ext s"

definition hash_task :: "externals \<Rightarrow> plan_dir \<Rightarrow> exn + string" where
  "hash_task ext pd =
     (case problem_pddl pd of
        None \<Rightarrow> Inl FileNotFoundError
      | Some content \<Rightarrow> Inr (compute_md5_hash ext content))"

definition runtime_value :: "pyfloat option \<Rightarrow> pyval" where
  "runtime_value runtime = (case runtime of None \<Rightarrow> VNone | Some r \<Rightarrow> VFloat r)"

definition problem_name :: "externals \<Rightarrow> props \<Rightarrow> string" where
  "problem_name ext pr =
     ''p-'' @ join_parameters ext (p_parameters pr) @ ''-'' @ str_int (p_seed pr) @ ''.pddl''"

definition readme_text :: "props \<Rightarrow> string" where
  "readme_text pr =
     ''Parameter order: '' @ join_str '', '' (sort (map fst (p_parameters pr))) @ [CHR 0x0A]"

text \<open>
  The body of the loop of \<^verbatim>\<open>main\<close> from the line after the duplicate check: a task
  that is kept. An exception leaves the program, so the result is the exception.
\<close>

definition keep_task ::
  "externals \<Rightarrow> plan_dir \<Rightarrow> props \<Rightarrow> string \<Rightarrow> collect_state \<Rightarrow> exn + collect_state" where
  "keep_task ext pd pr hash st =
     (let domain = p_domain pr;
          runtime = p_runtime pr;
          hashes = dd_value (seen_task_hashes st) domain {};
          values = dict_set ''planner_runtime'' (runtime_value runtime) (p_parameters pr)
      in
      case record_max_values values (dd_value (max_values st) domain Map.empty) of
        Inl e \<Rightarrow> Inl e
      | Inr domain_max \<Rightarrow>
        (case record_runtime (dd_value (seen_runtimes st) domain Map.empty) runtime of
           Inl e \<Rightarrow> Inl e
         | Inr domain_runtimes \<Rightarrow>
           (case problem_pddl pd of
              None \<Rightarrow> Inl FileNotFoundError
            | Some problem \<Rightarrow>
              (case domain_pddl pd of
                 None \<Rightarrow> Inl FileNotFoundError
               | Some domain_file \<Rightarrow>
                   Inr \<lparr> max_values = (max_values st)(domain \<mapsto> domain_max),
                         seen_task_hashes = (seen_task_hashes st)(domain \<mapsto> insert hash hashes),
                         seen_runtimes = (seen_runtimes st)(domain \<mapsto> domain_runtimes),
                         dest_dirs = insert domain (dest_dirs st),
                         dest_files = (dest_files st)
                           ((domain, problem_name ext pr) \<mapsto> problem,
                            (domain, ''domain.pddl'') \<mapsto> domain_file,
                            (domain, ''README'') \<mapsto> readme_text pr) \<rparr>))))"

text \<open>The body of the loop of \<^verbatim>\<open>main\<close> for one plan directory.\<close>

definition main_loop_body ::
  "externals \<Rightarrow> plan_dir \<Rightarrow> collect_state \<Rightarrow> exn + collect_state" where
  "main_loop_body ext pd st =
     (case properties_json pd of
        None \<Rightarrow> Inr st
      | Some pr \<Rightarrow>
        if p_planner_exitcode pr \<noteq> 0 then Inr st
        else
          (case hash_task ext pd of
             Inl e \<Rightarrow> Inl e
           | Inr hash \<Rightarrow>
             if hash \<in> dd_value (seen_task_hashes st) (p_domain pr) {}
             then Inr (st\<lparr>seen_task_hashes :=
                          dd_touch (seen_task_hashes st) (p_domain pr) {}\<rparr>)
             else keep_task ext pd pr hash st))"

fun main_loop :: "externals \<Rightarrow> plan_dir list \<Rightarrow> collect_state \<Rightarrow> exn + collect_state" where
  "main_loop ext [] st = Inr st"
| "main_loop ext (pd # plan_dirs) st =
     (case main_loop_body ext pd st of
        Inl e \<Rightarrow> Inl e
      | Inr st' \<Rightarrow> main_loop ext plan_dirs st')"

text \<open>
  \<^verbatim>\<open>main\<close>, run on the plan directories in the order the glob yields them and on a
  destination tree: the three tables start empty.
\<close>

definition main ::
  "externals \<Rightarrow> plan_dir list \<Rightarrow> string set \<Rightarrow> ((string \<times> string) \<rightharpoonup> string)
     \<Rightarrow> exn + collect_state" where
  "main ext plan_dirs dirs files =
     main_loop ext plan_dirs
       \<lparr> max_values = Map.empty, seen_task_hashes = Map.empty, seen_runtimes = Map.empty,
         dest_dirs = dirs, dest_files = files \<rparr>"

section \<open>generate-instances.py\<close>

type_synonym config = "(string \<times> pyval) list"

text \<open>
  What \<^verbatim>\<open>evaluate_configuration\<close> takes from outside: the command-line domain name,
  \<^verbatim>\<open>DOMAIN.adapt_parameters\<close>, \<^verbatim>\<open>utils.generate_input_files\<close> (which returns the plan
  directory) and \<^verbatim>\<open>RUNNER.run_planner\<close>, each with the exception it may raise; the text of
  \<^verbatim>\<open>run.log\<close> in a plan directory once the planner has run (\<open>None\<close> when the file does
  not exist); and Python's \<^verbatim>\<open>float\<close> on a string (\<open>None\<close> for its \<^verbatim>\<open>ValueError\<close>).
  Logging, the display of \<^verbatim>\<open>run.err\<close> and the compression of the log by \<^verbatim>\<open>xz\<close> leave the
  result and the record untouched and are left out.
\<close>

record generator_env =
  ARGS_domain :: string
  adapt_parameters :: "config \<Rightarrow> exn + config"
  generate_input_files :: "config \<Rightarrow> int \<Rightarrow> exn + string"
  run_planner :: "string \<Rightarrow> int"
  run_log :: "string \<Rightarrow> string option"
  float_of_str :: "string \<Rightarrow> pyfloat option"

text \<open>
  \<^verbatim>\<open>re.search("runtime: (.+?)s real", output)\<close>, returning group 1. After the literal
  \<^verbatim>\<open>runtime: \<close> the lazy group takes one character that is not a newline, then as few more
  as are needed for \<^verbatim>\<open>s real\<close> to follow; when no such continuation exists the search moves
  on to the next position.
\<close>

fun lazy_group :: "string \<Rightarrow> string \<Rightarrow> string option" where
  "lazy_group acc [] = None"
| "lazy_group acc (c # cs) =
     (if c = CHR 0x0A then None
      else if take 6 cs = ''s real'' then Some (acc @ [c])
      else lazy_group (acc @ [c]) cs)"

fun re_search_runtime :: "string \<Rightarrow> string option" where
  "re_search_runtime [] = None"
| "re_search_runtime (c # cs) =
     (if take 9 (c # cs) = ''runtime: '' then
        (case lazy_group [] (drop 9 (c # cs)) of
           Some g \<Rightarrow> Some g
         | None \<Rightarrow> re_search_runtime cs)
      else re_search_runtime cs)"

text \<open>
  The float written \<^verbatim>\<open>0.1\<close> in the source: the double nearest to one tenth.
\<close>

definition float_0_1 :: pyfloat where
  "float_0_1 = Fin (3602879701896397 / 36028797018963968)"

definition parse_runtime :: "generator_env \<Rightarrow> string \<Rightarrow> exn + pyfloat" where
  "parse_runtime env pd =
     (case run_log env pd of
        None \<Rightarrow> Inl FileNotFoundError
      | Some output \<Rightarrow>
        (case re_search_runtime output of
           None \<Rightarrow> Inl AttributeError
         | Some g \<Rightarrow>
           (case float_of_str env g of
              None \<Rightarrow> Inl ValueError
            | Some runtime \<Rightarrow> Inr (py_max float_0_1 runtime))))"

text \<open>
  \<^verbatim>\<open>store_results\<close>: the dictionary \<^verbatim>\<open>results\<close>, and the file \<^verbatim>\<open>properties.json\<close> of
  the plan directory holding it. The seed that the optimizer passes is an integer, on which
  \<^verbatim>\<open>int\<close> is the identity. The order of the keys in the text of the file is not modelled.
\<close>

definition results ::
  "generator_env \<Rightarrow> config \<Rightarrow> int \<Rightarrow> int \<Rightarrow> pyfloat option \<Rightarrow> (string \<times> pyval) list" where
  "results env cfg seed exitcode runtime =
     [(''domain'', VStr (ARGS_domain env)),
      (''parameters'', VDict cfg),
      (''seed'', VInt seed),
      (''planner_exitcode'', VInt exitcode),
      (''runtime'', runtime_value runtime)]"

definition store_results ::
  "generator_env \<Rightarrow> config \<Rightarrow> int \<Rightarrow> string \<Rightarrow> int \<Rightarrow> pyfloat option
     \<Rightarrow> (string \<rightharpoonup> (string \<times> pyval) list) \<Rightarrow> (string \<rightharpoonup> (string \<times> pyval) list)" where
  "store_results env cfg seed pd exitcode runtime files =
     files(pd \<mapsto> results env cfg seed exitcode runtime)"

text \<open>
  \<^verbatim>\<open>evaluate_configuration(cfg, seed)\<close>, on the \<^verbatim>\<open>properties.json\<close> files of the plan
  directories: it returns the score and the files, or leaves with an exception that it does
  not catch.
\<close>

definition evaluate_configuration ::
  "generator_env \<Rightarrow> config \<Rightarrow> int \<Rightarrow> (string \<rightharpoonup> (string \<times> pyval) list)
     \<Rightarrow> exn + (pyval \<times> (string \<rightharpoonup> (string \<times> pyval) list))" where
  "evaluate_configuration env cfg0 seed files =
     (case adapt_parameters env cfg0 of
        Inl e \<Rightarrow> if e = IllegalConfiguration then Inr (VInt 100, files) else Inl e
      | Inr cfg \<Rightarrow>
        (case generate_input_files env cfg seed of
           Inl e \<Rightarrow> if e = CalledProcessError then Inr (VInt 100, files) else Inl e
         | Inr pd \<Rightarrow>
           (let exitcode = run_planner env pd in
            case (if exitcode = 0 then map_sum id Some (parse_runtime env pd) else Inr None) of
              Inl e \<Rightarrow> Inl e
            | Inr runtime \<Rightarrow>
              (let files' = store_results env cfg seed pd exitcode runtime files in
               case runtime of
                 Some r \<Rightarrow> Inr (VFloat (float_neg r), files')
               | None \<Rightarrow> Inr (VInt 100, files')))))"

text \<open>
  A JSON object is flat when none of its values is itself an object.
\<close>

fun is_object :: "pyval \<Rightarrow> bool" where
  "is_object (VDict _) = True"
| "is_object _ = False"

definition flat_object :: "(string \<times> pyval) list \<Rightarrow> bool" where
  "flat_object obj = list_all (\<lambda>kv. \<not> is_object (snd kv)) obj"

section \<open>The specification's reading of the runtime buckets\<close>

text \<open>
  The smallest bound of \<^verbatim>\<open>RUNTIME_BOUNDS\<close> that is greater than or equal to the runtime, if
  there is one.
\<close>

definition smallest_bound :: "pyfloat \<Rightarrow> int option" where
  "smallest_bound r =
     (let above = filter (\<lambda>b. float_le r (Fin (of_int b))) RUNTIME_BOUNDS
      in if above = [] then None else Some (Min (set above)))"

section \<open>Sample inputs\<close>

text \<open>
  Concrete inputs on which the model is evaluated below. The two external functions are
  instantiated by simple stand-ins: the digest by the identity and the joined parameters by the
  parameter names joined with dashes.
\<close>

definition sample_externals :: externals where
  "sample_externals =
     \<lparr> md5_hexdigest = (\<lambda>s. s), join_parameters = (\<lambda>ps. join_str ''-'' (map fst ps)) \<rparr>"

definition sample_props :: props where
  "sample_props =
     \<lparr> p_domain = ''gripper'',
       p_parameters = [(''rooms'', VInt 2), (''balls'', VInt 4)],
       p_seed = 7, p_planner_exitcode = 0, p_runtime = Some (Fin 15) \<rparr>"

definition sample_plan_dir :: plan_dir where
  "sample_plan_dir =
     \<lparr> properties_json = Some sample_props,
       problem_pddl = Some ''(define (problem p))'',
       domain_pddl = Some ''(define (domain gripper))'' \<rparr>"

definition sample_failed_dir :: plan_dir where
  "sample_failed_dir =
     sample_plan_dir
       \<lparr> properties_json := Some (sample_props\<lparr> p_planner_exitcode := 1, p_runtime := None \<rparr>),
         problem_pddl := Some ''(define (problem q))'' \<rparr>"

definition sample_other_domain_dir :: plan_dir where
  "sample_other_domain_dir =
     sample_plan_dir\<lparr> properties_json := Some (sample_props\<lparr> p_domain := ''blocks'' \<rparr>) \<rparr>"

definition sample_missing_dir :: plan_dir where
  "sample_missing_dir = sample_plan_dir\<lparr> properties_json := None \<rparr>"

definition sample_start :: collect_state where
  "sample_start =
     \<lparr> max_values = Map.empty, seen_task_hashes = Map.empty, seen_runtimes = Map.empty,
       dest_dirs = {}, dest_files = Map.empty \<rparr>"

definition sample_kept :: collect_state where
  "sample_kept =
     \<lparr> max_values =
         [''gripper'' \<mapsto>
            [''rooms'' \<mapsto> VInt 2, ''balls'' \<mapsto> VInt 4, ''planner_runtime'' \<mapsto> VFloat (Fin 15)]],
       seen_task_hashes = [''gripper'' \<mapsto> {''(define (problem p))''}],
       seen_runtimes = [''gripper'' \<mapsto> [20 \<mapsto> 1]],
       dest_dirs = {''gripper''},
       dest_files =
         [(''gripper'', ''p-rooms-balls-7.pddl'') \<mapsto> ''(define (problem p))'',
          (''gripper'', ''domain.pddl'') \<mapsto> ''(define (domain gripper))'',
          (''gripper'', ''README'') \<mapsto> ''Parameter order: balls, rooms'' @ [CHR 0x0A]] \<rparr>"

definition sample_larger_dir :: plan_dir where
  "sample_larger_dir =
     \<lparr> properties_json = Some
         \<lparr> p_domain = ''gripper'',
           p_parameters = [(''rooms'', VInt 3), (''balls'', VInt 1)],
           p_seed = 8, p_planner_exitcode = 0, p_runtime = Some (Fin (1 / 2)) \<rparr>,
       problem_pddl = Some ''(define (problem r))'',
       domain_pddl = Some ''(define (domain gripper))'' \<rparr>"

definition sample_raised :: collect_state where
  "sample_raised =
     \<lparr> max_values =
         [''gripper'' \<mapsto>
            [''rooms'' \<mapsto> VInt 3, ''balls'' \<mapsto> VInt 4, ''planner_runtime'' \<mapsto> VFloat (Fin 15)]],
       seen_task_hashes = [''gripper'' \<mapsto> {''(define (problem r))'', ''(define (problem p))''}],
       seen_runtimes = [''gripper'' \<mapsto> [20 \<mapsto> 1, 1 \<mapsto> 1]],
       dest_dirs = {''gripper''},
       dest_files =
         [(''gripper'', ''p-rooms-balls-7.pddl'') \<mapsto> ''(define (problem p))'',
          (''gripper'', ''p-rooms-balls-8.pddl'') \<mapsto> ''(define (problem r))'',
          (''gripper'', ''domain.pddl'') \<mapsto> ''(define (domain gripper))'',
          (''gripper'', ''README'') \<mapsto> ''Parameter order: balls, rooms'' @ [CHR 0x0A]] \<rparr>"

text \<open>
  A second stand-in for the digest, which has collisions: the first 16 characters of the
  text. The two problem files below differ and have the same digest under it.
\<close>

definition sample_prefix_externals :: externals where
  "sample_prefix_externals =
     \<lparr> md5_hexdigest = (\<lambda>s. take 16 s), join_parameters = (\<lambda>ps. join_str ''-'' (map fst ps)) \<rparr>"

definition sample_collision_dir :: plan_dir where
  "sample_collision_dir = sample_plan_dir\<lparr> problem_pddl := Some ''(define (problem q))'' \<rparr>"

definition sample_kept_prefix :: collect_state where
  "sample_kept_prefix =
     sample_kept\<lparr> seen_task_hashes := [''gripper'' \<mapsto> {''(define (problem''}] \<rparr>"

text \<open>
  A sample environment of \<^verbatim>\<open>evaluate_configuration\<close>: the empty configuration is illegal,
  the generator fails on a negative seed, the planner fails in the plan directory of seed 2,
  and the log of seed 0 reports a runtime of 1/32 seconds.
\<close>

definition sample_env :: generator_env where
  "sample_env =
     \<lparr> ARGS_domain = ''gripper'',
       adapt_parameters = (\<lambda>cfg. if cfg = [] then Inl IllegalConfiguration else Inr cfg),
       generate_input_files =
         (\<lambda>cfg seed. if seed < 0 then Inl CalledProcessError else Inr (''plan/'' @ str_int seed)),
       run_planner = (\<lambda>pd. if pd = ''plan/2'' then 1 else 0),
       run_log =
         (\<lambda>pd. if pd = ''plan/0'' then Some ''Solution found. runtime: 0.03125s real''
               else Some ''runtime: 12.5s real''),
       float_of_str =
         (\<lambda>s. if s = ''0.03125'' then Some (Fin (1 / 32))
              else if s = ''12.5'' then Some (Fin (25 / 2)) else None) \<rparr>"

definition sample_cfg :: config where
  "sample_cfg = [(''rooms'', VInt 2), (''balls'', VInt 4)]"

section \<open>Properties of collect-instances.py\<close>

lemma float_lt_trans: "float_lt a b \<Longrightarrow> float_lt b c \<Longrightarrow> float_lt a c"
  by (cases a; cases b; cases c) auto

lemma py_gt_trans: "py_gt c b = Inr True \<Longrightarrow> py_gt b a = Inr True \<Longrightarrow> py_gt c a = Inr True"
  by (auto simp: py_gt_def split: option.splits pyval.splits dest: float_lt_trans)

lemma record_runtime_loop_first:
  "record_runtime_loop bs rts (Some r) =
     Inr (case filter (\<lambda>b. float_le r (Fin (of_int b))) bs of
            [] \<Rightarrow> rts
          | b # _ \<Rightarrow> rts(b \<mapsto> dd_value rts b 0 + 1))"
  by (induction bs) (auto simp: runtime_le_def fun_upd_def)

lemma Min_sorted_Cons: "sorted (b # bs) \<Longrightarrow> Min (set (b # bs)) = (b::int)"
  by (simp add: Min_insert2)

lemma sorted_RUNTIME_BOUNDS: "sorted RUNTIME_BOUNDS"
  by (simp add: RUNTIME_BOUNDS_def)

lemma float_le_mono: "float_le r (Fin a) \<Longrightarrow> a \<le> b \<Longrightarrow> float_le r (Fin b)"
  by (cases r) auto

lemma float_lt_not_le: "float_lt a b \<Longrightarrow> \<not> float_le b a"
  by (cases a; cases b) auto

lemma above_all_bounds:
  "float_lt (Fin 10000) r \<Longrightarrow> filter (\<lambda>b. float_le r (Fin (of_int b))) RUNTIME_BOUNDS = []"
proof -
  assume gt: "float_lt (Fin 10000) r"
  have "\<not> float_le r (Fin (of_int b))" if "b \<in> set RUNTIME_BOUNDS" for b
  proof
    assume le: "float_le r (Fin (of_int b))"
    from that have "b \<le> 10000" by (auto simp: RUNTIME_BOUNDS_def)
    then have "(of_int b :: rat) \<le> 10000" by simp
    with le have "float_le r (Fin 10000)" by (rule float_le_mono)
    with gt show False by (auto dest: float_lt_not_le)
  qed
  then show ?thesis by (simp add: filter_empty_conv)
qed

text \<open>
  Claim C9. \<^verbatim>\<open>record_runtime\<close> on a float runtime returns normally and changes the
  table of the domain in at most one place: when some bound of \<^verbatim>\<open>RUNTIME_BOUNDS\<close> is
  greater than or equal to the runtime, the count of the smallest such bound goes up by one
  (from 0 when the bound had no entry) and every other entry stays; when there is none, the
  table is returned as it was. A runtime above 10000 is therefore counted nowhere.
\<close>

theorem record_runtime_bucket:
  "record_runtime rts (Some r) =
     Inr (case smallest_bound r of
            None \<Rightarrow> rts
          | Some b \<Rightarrow> rts(b \<mapsto> dd_value rts b 0 + 1))
   \<and> (float_lt (Fin 10000) r \<longrightarrow> record_runtime rts (Some r) = Inr rts)"
proof -
  let ?above = "filter (\<lambda>b. float_le r (Fin (of_int b))) RUNTIME_BOUNDS"
  have first: "record_runtime rts (Some r) =
     Inr (case ?above of [] \<Rightarrow> rts | b # _ \<Rightarrow> rts(b \<mapsto> dd_value rts b 0 + 1))"
    unfolding record_runtime_def by (rule record_runtime_loop_first)
  have "sorted ?above" using sorted_RUNTIME_BOUNDS by (rule sorted_wrt_filter)
  then have "smallest_bound r = (case ?above of [] \<Rightarrow> None | b # _ \<Rightarrow> Some b)"
    unfolding smallest_bound_def Let_def
    by (cases ?above) (simp_all only: Min_sorted_Cons list.case if_True if_False list.distinct refl)
  then have a: "record_runtime rts (Some r) =
     Inr (case smallest_bound r of None \<Rightarrow> rts | Some b \<Rightarrow> rts(b \<mapsto> dd_value rts b 0 + 1))"
    using first by (cases ?above) simp_all
  have b: "float_lt (Fin 10000) r \<longrightarrow> record_runtime rts (Some r) = Inr rts"
    using first by (auto dest: above_all_bounds)
  from a b show ?thesis by blast
qed

theorem record_runtime_bucket_witness:
  "record_runtime (Map.empty(20 \<mapsto> 3)) (Some (Fin 15)) = Inr (Map.empty(20 \<mapsto> 4))
   \<and> smallest_bound (Fin 15) = Some 20
   \<and> float_lt (Fin 10000) (Fin 20000)
   \<and> record_runtime (Map.empty(20 \<mapsto> 3)) (Some (Fin 20000)) = Inr (Map.empty(20 \<mapsto> 3))"
proof -
  have sb: "smallest_bound (Fin 15) = Some 20"
    by (simp add: smallest_bound_def RUNTIME_BOUNDS_def)
  have gt: "float_lt (Fin 10000) (Fin 20000)" by simp
  show ?thesis
    using record_runtime_bucket [of "Map.empty(20 \<mapsto> 3)" "Fin 15"]
      record_runtime_bucket [of "Map.empty(20 \<mapsto> 3)" "Fin 20000"] sb gt
    by (simp add: dd_value_def smallest_bound_def RUNTIME_BOUNDS_def)
qed

lemma record_max_values_mono:
  "record_max_values ps m = Inr m' \<Longrightarrow> m k = Some v \<Longrightarrow>
   \<exists>v'. m' k = Some v' \<and> (v' = v \<or> py_gt v' v = Inr True)"
proof (induction ps arbitrary: m v)
  case Nil
  then show ?case by simp
next
  case (Cons p ps)
  obtain key val where p: "p = (key, val)" by (cases p)
  show ?case
  proof (cases "m key")
    case None
    with Cons.prems p have run: "record_max_values ps (m(key \<mapsto> val)) = Inr m'" by simp
    from None Cons.prems(2) have "key \<noteq> k" by auto
    then have "(m(key \<mapsto> val)) k = Some v" using Cons.prems(2) by simp
    from Cons.IH [OF run this] show ?thesis .
  next
    case (Some old)
    show ?thesis
    proof (cases "py_gt val old")
      case (Inl e)
      with Some Cons.prems p show ?thesis by simp
    next
      case (Inr b)
      show ?thesis
      proof (cases b)
        case False
        with Inr Some Cons.prems p have "record_max_values ps m = Inr m'" by simp
        from Cons.IH [OF this Cons.prems(2)] show ?thesis .
      next
        case True
        with Inr Some Cons.prems p
        have run: "record_max_values ps (m(key \<mapsto> val)) = Inr m'" by simp
        show ?thesis
        proof (cases "key = k")
          case False
          then have "(m(key \<mapsto> val)) k = Some v" using Cons.prems(2) by simp
          from Cons.IH [OF run this] show ?thesis .
        next
          case keq: True
          with Some Cons.prems(2) have old: "old = v" by simp
          from keq have "(m(key \<mapsto> val)) k = Some val" by simp
          from Cons.IH [OF run this] obtain v' where
            v': "m' k = Some v'" "v' = val \<or> py_gt v' val = Inr True" by blast
          from Inr True old have "py_gt val v = Inr True" by simp
          with v' show ?thesis by (auto intro: py_gt_trans)
        qed
      qed
    qed
  qed
qed

lemma record_max_values_changed:
  "record_max_values ps m = Inr m' \<Longrightarrow> m' k \<noteq> m k \<Longrightarrow>
   \<exists>v. (k, v) \<in> set ps \<and> m' k = Some v \<and>
       (case m k of None \<Rightarrow> True | Some old \<Rightarrow> py_gt v old = Inr True)"
proof (induction ps arbitrary: m)
  case Nil
  then show ?case by simp
next
  case (Cons p ps)
  obtain key val where p: "p = (key, val)" by (cases p)
  have unchanged: ?case if run: "record_max_values ps m = Inr m'"
    using Cons.IH [OF run Cons.prems(2)] by auto
  have updated: ?case
    if run: "record_max_values ps (m(key \<mapsto> val)) = Inr m'"
      and ok: "case m key of None \<Rightarrow> True | Some old \<Rightarrow> py_gt val old = Inr True"
  proof (cases "key = k")
    case False
    then have "m' k \<noteq> (m(key \<mapsto> val)) k" using Cons.prems(2) by simp
    from Cons.IH [OF run this] False show ?thesis by auto
  next
    case True
    show ?thesis
    proof (cases "m' k = Some val")
      case same: True
      with True ok p show ?thesis by auto
    next
      case False
      with True have "m' k \<noteq> (m(key \<mapsto> val)) k" by simp
      from Cons.IH [OF run this] obtain v where
        v: "(k, v) \<in> set ps" "m' k = Some v" "py_gt v val = Inr True"
        using True by auto
      from ok True v(3) have "case m k of None \<Rightarrow> True | Some old \<Rightarrow> py_gt v old = Inr True"
        by (auto split: option.splits intro: py_gt_trans)
      with v show ?thesis by auto
    qed
  qed
  show ?case
  proof (cases "m key")
    case None
    with Cons.prems p have "record_max_values ps (m(key \<mapsto> val)) = Inr m'" by simp
    then show ?thesis using None by (intro updated) simp_all
  next
    case (Some old)
    show ?thesis
    proof (cases "py_gt val old")
      case (Inl e)
      with Some Cons.prems p show ?thesis by simp
    next
      case (Inr b)
      show ?thesis
      proof (cases b)
        case False
        with Inr Some Cons.prems p have "record_max_values ps m = Inr m'" by simp
        then show ?thesis by (rule unchanged)
      next
        case True
        with Inr Some Cons.prems p
        have "record_max_values ps (m(key \<mapsto> val)) = Inr m'" by simp
        then show ?thesis using Some Inr True by (intro updated) simp_all
      qed
    qed
  qed
qed

lemma dd_touch_seen: "x \<in> dd_value m k {} \<Longrightarrow> dd_touch m k {} = m"
  by (auto simp: dd_value_def dd_touch_def split: option.splits)

lemma keep_task_Inr:
  assumes "keep_task ext pd pr h st = Inr st'"
  obtains domain_max domain_runtimes problem domain_file where
    "record_max_values
       (dict_set ''planner_runtime'' (runtime_value (p_runtime pr)) (p_parameters pr))
       (dd_value (max_values st) (p_domain pr) Map.empty) = Inr domain_max"
    "record_runtime (dd_value (seen_runtimes st) (p_domain pr) Map.empty) (p_runtime pr)
       = Inr domain_runtimes"
    "problem_pddl pd = Some problem"
    "domain_pddl pd = Some domain_file"
    "st' = \<lparr> max_values = (max_values st)(p_domain pr \<mapsto> domain_max),
             seen_task_hashes = (seen_task_hashes st)
               (p_domain pr \<mapsto> insert h (dd_value (seen_task_hashes st) (p_domain pr) {})),
             seen_runtimes = (seen_runtimes st)(p_domain pr \<mapsto> domain_runtimes),
             dest_dirs = insert (p_domain pr) (dest_dirs st),
             dest_files = (dest_files st)
               ((p_domain pr, problem_name ext pr) \<mapsto> problem,
                (p_domain pr, ''domain.pddl'') \<mapsto> domain_file,
                (p_domain pr, ''README'') \<mapsto> readme_text pr) \<rparr>"
  using assms unfolding keep_task_def Let_def
  by (auto split: sum.splits option.splits)

lemma main_loop_body_cases:
  assumes "main_loop_body ext pd st = Inr st'"
  obtains (skipped) "st' = st"
  | (kept) pr problem where
      "properties_json pd = Some pr" "p_planner_exitcode pr = 0"
      "problem_pddl pd = Some problem"
      "compute_md5_hash ext problem \<notin> dd_value (seen_task_hashes st) (p_domain pr) {}"
      "keep_task ext pd pr (compute_md5_hash ext problem) st = Inr st'"
  using assms unfolding main_loop_body_def hash_task_def
  by (auto split: option.splits if_splits sum.splits simp: dd_touch_seen)

lemma main_loop_body_kept:
  assumes "properties_json pd = Some pr" "p_planner_exitcode pr = 0"
    "problem_pddl pd = Some problem"
    "compute_md5_hash ext problem \<notin> dd_value (seen_task_hashes st) (p_domain pr) {}"
  shows "main_loop_body ext pd st = keep_task ext pd pr (compute_md5_hash ext problem) st"
  using assms by (simp add: main_loop_body_def hash_task_def)

lemma main_loop_body_duplicate:
  assumes "properties_json pd = Some pr" "problem_pddl pd = Some problem"
    "compute_md5_hash ext problem \<in> dd_value (seen_task_hashes st) (p_domain pr) {}"
  shows "main_loop_body ext pd st = Inr st"
  using assms by (simp add: main_loop_body_def hash_task_def dd_touch_seen)

lemma main_loop_body_failed:
  assumes "properties_json pd = Some pr" "p_planner_exitcode pr \<noteq> 0"
  shows "main_loop_body ext pd st = Inr st"
  using assms by (simp add: main_loop_body_def)

lemma sample_record_runtime: "record_runtime Map.empty (Some (Fin 15)) = Inr [20 \<mapsto> 1]"
  by (simp add: record_runtime_def RUNTIME_BOUNDS_def runtime_le_def dd_value_def)

lemma sample_keep:
  "main_loop_body sample_externals sample_plan_dir sample_start = Inr sample_kept"
  by (simp add: main_loop_body_def hash_task_def compute_md5_hash_def keep_task_def
      problem_name_def readme_text_def str_int_def digit_char_def
      sample_record_runtime dd_value_def runtime_value_def
      sample_externals_def sample_plan_dir_def sample_start_def sample_kept_def
      sample_props_def Let_def)

lemma record_runtime_total:
  "\<exists>domain_runtimes. record_runtime rts (Some r) = Inr domain_runtimes"
  unfolding record_runtime_def by (simp add: record_runtime_loop_first)

lemma keep_task_total:
  assumes "record_max_values
       (dict_set ''planner_runtime'' (runtime_value (p_runtime pr)) (p_parameters pr))
       (dd_value (max_values st) (p_domain pr) Map.empty) = Inr domain_max"
    and "p_runtime pr = Some r"
    and "problem_pddl pd = Some problem"
    and "domain_pddl pd = Some domain_file"
  shows "\<exists>st'. keep_task ext pd pr h st = Inr st'"
proof -
  obtain domain_runtimes where
    "record_runtime (dd_value (seen_runtimes st) (p_domain pr) Map.empty) (p_runtime pr)
       = Inr domain_runtimes"
    using record_runtime_total assms(2) by metis
  with assms show ?thesis by (simp add: keep_task_def Let_def)
qed

lemma problem_name_not_fixed:
  "problem_name ext pr \<noteq> ''domain.pddl''" "problem_name ext pr \<noteq> ''README''"
  by (simp_all add: problem_name_def)

lemma keep_task_files:
  assumes "keep_task ext pd pr h st = Inr st'"
  shows "dest_files st' (p_domain pr, problem_name ext pr) = problem_pddl pd"
    and "dest_files st' (p_domain pr, ''domain.pddl'') = domain_pddl pd"
    and "dest_files st' (p_domain pr, ''README'') = Some (readme_text pr)"
    and "p_domain pr \<in> dest_dirs st'"
    and "h \<in> dd_value (seen_task_hashes st') (p_domain pr) {}"
  using assms problem_name_not_fixed [of ext pr]
  by (auto elim!: keep_task_Inr simp: dd_value_def)

lemma keep_task_other_files:
  assumes "keep_task ext pd pr h st = Inr st'" "fst path \<noteq> p_domain pr"
  shows "dest_files st' path = dest_files st path"
  using assms by (cases path) (auto elim!: keep_task_Inr)

lemma keep_task_seen:
  assumes "keep_task ext pd pr h st = Inr st'" "x \<in> dd_value (seen_task_hashes st) d {}"
  shows "x \<in> dd_value (seen_task_hashes st') d {}"
  using assms by (auto elim!: keep_task_Inr simp: dd_value_def)

lemma main_loop_body_seen:
  assumes "main_loop_body ext pd st = Inr st'" "x \<in> dd_value (seen_task_hashes st) d {}"
  shows "x \<in> dd_value (seen_task_hashes st') d {}"
  using assms(1)
proof (cases rule: main_loop_body_cases)
  case skipped
  with assms(2) show ?thesis by simp
next
  case (kept pr problem)
  from keep_task_seen [OF kept(5) assms(2)] show ?thesis .
qed

lemma main_loop_seen:
  "main_loop ext plan_dirs st = Inr st' \<Longrightarrow> x \<in> dd_value (seen_task_hashes st) d {} \<Longrightarrow>
   x \<in> dd_value (seen_task_hashes st') d {}"
proof (induction plan_dirs arbitrary: st)
  case Nil
  then show ?case by simp
next
  case (Cons pd plan_dirs)
  from Cons.prems(1) obtain st1 where
    body: "main_loop_body ext pd st = Inr st1" and rest: "main_loop ext plan_dirs st1 = Inr st'"
    by (auto split: sum.splits)
  from main_loop_body_seen [OF body Cons.prems(2)] Cons.IH [OF rest] show ?case by blast
qed

lemma main_loop_written:
  "main_loop ext plan_dirs st = Inr st' \<Longrightarrow> dest_files st' path \<noteq> dest_files st path \<Longrightarrow>
   \<exists>pd\<in>set plan_dirs. \<exists>pr. properties_json pd = Some pr \<and> p_planner_exitcode pr = 0
      \<and> p_domain pr = fst path"
proof (induction plan_dirs arbitrary: st)
  case Nil
  then show ?case by simp
next
  case (Cons pd plan_dirs)
  from Cons.prems(1) obtain st1 where
    body: "main_loop_body ext pd st = Inr st1" and rest: "main_loop ext plan_dirs st1 = Inr st'"
    by (auto split: sum.splits)
  show ?case
  proof (cases "dest_files st' path = dest_files st1 path")
    case False
    from Cons.IH [OF rest False] show ?thesis by auto
  next
    case True
    with Cons.prems(2) have changed: "dest_files st1 path \<noteq> dest_files st path" by simp
    from body show ?thesis
    proof (cases rule: main_loop_body_cases)
      case skipped
      with changed show ?thesis by simp
    next
      case (kept pr problem)
      from keep_task_other_files [OF kept(5)] changed have "fst path = p_domain pr" by blast
      with kept(1,2) show ?thesis by auto
    qed
  qed
qed

text \<open>
  Claim C1. A plan directory whose record has a non-zero \<^verbatim>\<open>planner_exitcode\<close> leaves the
  whole state as it was, destination tree included, and the loop goes on with the next
  directory. Conversely, every file of the destination tree that a run of the loop has written
  or changed lies in the directory of the domain of some processed record whose
  \<^verbatim>\<open>planner_exitcode\<close> is 0.
\<close>

theorem nonzero_exitcode_skipped:
  "(properties_json pd = Some pr \<and> p_planner_exitcode pr \<noteq> 0 \<longrightarrow>
      main_loop_body ext pd st = Inr st
      \<and> main_loop ext (pd # plan_dirs) st = main_loop ext plan_dirs st)
   \<and> (main_loop ext dirs st0 = Inr st1 \<and> dest_files st1 path \<noteq> dest_files st0 path \<longrightarrow>
      (\<exists>pd'\<in>set dirs. \<exists>pr'. properties_json pd' = Some pr' \<and> p_planner_exitcode pr' = 0
         \<and> p_domain pr' = fst path))"
proof (intro conjI impI)
  assume a: "properties_json pd = Some pr \<and> p_planner_exitcode pr \<noteq> 0"
  then show body: "main_loop_body ext pd st = Inr st" by (simp add: main_loop_body_failed)
  then show "main_loop ext (pd # plan_dirs) st = main_loop ext plan_dirs st" by simp
next
  assume "main_loop ext dirs st0 = Inr st1 \<and> dest_files st1 path \<noteq> dest_files st0 path"
  then show "\<exists>pd'\<in>set dirs. \<exists>pr'. properties_json pd' = Some pr' \<and> p_planner_exitcode pr' = 0
         \<and> p_domain pr' = fst path"
    using main_loop_written by blast
qed

lemma sample_failed_body:
  "main_loop_body sample_externals sample_failed_dir st = Inr st"
  by (simp add: main_loop_body_def sample_failed_dir_def sample_plan_dir_def sample_props_def)

theorem nonzero_exitcode_skipped_witness:
  "properties_json sample_failed_dir
     = Some (sample_props\<lparr>p_planner_exitcode := 1, p_runtime := None\<rparr>)
   \<and> p_planner_exitcode (sample_props\<lparr>p_planner_exitcode := 1, p_runtime := None\<rparr>) \<noteq> 0
   \<and> main_loop_body sample_externals sample_failed_dir sample_start = Inr sample_start
   \<and> main_loop sample_externals [sample_failed_dir, sample_plan_dir] sample_start
       = Inr sample_kept
   \<and> dest_files sample_kept (''gripper'', ''README'')
       \<noteq> dest_files sample_start (''gripper'', ''README'')
   \<and> (\<exists>pd'\<in>set [sample_failed_dir, sample_plan_dir]. \<exists>pr'.
         properties_json pd' = Some pr' \<and> p_planner_exitcode pr' = 0
         \<and> p_domain pr' = fst (''gripper'', ''README''))"
proof -
  have h1: "properties_json sample_failed_dir
       = Some (sample_props\<lparr>p_planner_exitcode := 1, p_runtime := None\<rparr>)
     \<and> p_planner_exitcode (sample_props\<lparr>p_planner_exitcode := 1, p_runtime := None\<rparr>) \<noteq> 0"
    by (simp add: sample_failed_dir_def)
  have h2: "main_loop sample_externals [sample_failed_dir, sample_plan_dir] sample_start
       = Inr sample_kept
     \<and> dest_files sample_kept (''gripper'', ''README'')
       \<noteq> dest_files sample_start (''gripper'', ''README'')"
    by (simp add: sample_failed_body sample_keep) (simp add: sample_kept_def sample_start_def)
  from nonzero_exitcode_skipped
    [where pd = sample_failed_dir
      and pr = "sample_props\<lparr>p_planner_exitcode := 1, p_runtime := None\<rparr>"
      and ext = sample_externals and st = sample_start and plan_dirs = "[sample_plan_dir]"
      and dirs = "[sample_failed_dir, sample_plan_dir]" and ?st0.0 = sample_start
      and ?st1.0 = sample_kept and path = "(''gripper'', ''README'')"]
    h1 h2
  show ?thesis by blast
qed

lemma record_max_values_keep:
  assumes "keep_task ext pd pr h st = Inr st'" "max_values st d = Some m" "m k = Some v"
  shows "\<exists>m' v'. max_values st' d = Some m' \<and> m' k = Some v'
           \<and> (v' = v \<or> py_gt v' v = Inr True)"
  using assms(1)
proof (rule keep_task_Inr)
  fix domain_max domain_runtimes problem domain_file
  assume rmv: "record_max_values
       (dict_set ''planner_runtime'' (runtime_value (p_runtime pr)) (p_parameters pr))
       (dd_value (max_values st) (p_domain pr) Map.empty) = Inr domain_max"
    and st': "st' = \<lparr> max_values = (max_values st)(p_domain pr \<mapsto> domain_max),
             seen_task_hashes = (seen_task_hashes st)
               (p_domain pr \<mapsto> insert h (dd_value (seen_task_hashes st) (p_domain pr) {})),
             seen_runtimes = (seen_runtimes st)(p_domain pr \<mapsto> domain_runtimes),
             dest_dirs = insert (p_domain pr) (dest_dirs st),
             dest_files = (dest_files st)
               ((p_domain pr, problem_name ext pr) \<mapsto> problem,
                (p_domain pr, ''domain.pddl'') \<mapsto> domain_file,
                (p_domain pr, ''README'') \<mapsto> readme_text pr) \<rparr>"
  show ?thesis
  proof (cases "d = p_domain pr")
    case False
    with st' assms(2,3) show ?thesis by simp
  next
    case True
    with assms(2) have "dd_value (max_values st) (p_domain pr) Map.empty = m"
      by (simp add: dd_value_def)
    with rmv assms(3) obtain v' where "domain_max k = Some v'" "v' = v \<or> py_gt v' v = Inr True"
      using record_max_values_mono by metis
    with st' True show ?thesis by simp
  qed
qed

lemma main_loop_max_values:
  "main_loop ext plan_dirs st = Inr st' \<Longrightarrow> max_values st d = Some m \<Longrightarrow> m k = Some v \<Longrightarrow>
   \<exists>m' v'. max_values st' d = Some m' \<and> m' k = Some v' \<and> (v' = v \<or> py_gt v' v = Inr True)"
proof (induction plan_dirs arbitrary: st m v)
  case Nil
  then show ?case by simp
next
  case (Cons pd plan_dirs)
  from Cons.prems(1) obtain st1 where
    body: "main_loop_body ext pd st = Inr st1" and rest: "main_loop ext plan_dirs st1 = Inr st'"
    by (auto split: sum.splits)
  have "\<exists>m1 v1. max_values st1 d = Some m1 \<and> m1 k = Some v1
          \<and> (v1 = v \<or> py_gt v1 v = Inr True)"
    using body
  proof (cases rule: main_loop_body_cases)
    case skipped
    with Cons.prems(2,3) show ?thesis by simp
  next
    case (kept pr problem)
    from record_max_values_keep [OF kept(5) Cons.prems(2,3)] show ?thesis .
  qed
  then obtain m1 v1 where s1: "max_values st1 d = Some m1" "m1 k = Some v1"
    and v1: "v1 = v \<or> py_gt v1 v = Inr True" by blast
  from Cons.IH [OF rest s1] obtain m' v' where
    s2: "max_values st' d = Some m'" "m' k = Some v'" and v': "v' = v1 \<or> py_gt v' v1 = Inr True"
    by blast
  from v1 v' have "v' = v \<or> py_gt v' v = Inr True" by (auto intro: py_gt_trans)
  with s2 show ?case by blast
qed

text \<open>
  Claim C10. Over any run of the loop that ends normally, a value stored for a key in the
  maximum table of a domain is still stored afterwards, either unchanged or replaced by a
  value that compares strictly greater. And \<^verbatim>\<open>record_max_values\<close> changes the entry of a
  key only to a value of that key among the instance's values, and only when the key was
  absent or that value is strictly greater than the one stored.
\<close>

theorem max_values_never_decrease:
  "(main_loop ext plan_dirs st = Inr st' \<and> max_values st d = Some m \<and> m k = Some v \<longrightarrow>
      (\<exists>m' v'. max_values st' d = Some m' \<and> m' k = Some v'
         \<and> (v' = v \<or> py_gt v' v = Inr True)))
   \<and> (record_max_values ps m0 = Inr m1 \<and> m1 k1 \<noteq> m0 k1 \<longrightarrow>
      (\<exists>new. (k1, new) \<in> set ps \<and> m1 k1 = Some new
         \<and> (m0 k1 = None \<or> (\<exists>old. m0 k1 = Some old \<and> py_gt new old = Inr True))))"
proof (intro conjI impI)
  assume "main_loop ext plan_dirs st = Inr st' \<and> max_values st d = Some m \<and> m k = Some v"
  then show "\<exists>m' v'. max_values st' d = Some m' \<and> m' k = Some v'
         \<and> (v' = v \<or> py_gt v' v = Inr True)"
    using main_loop_max_values by blast
next
  assume a: "record_max_values ps m0 = Inr m1 \<and> m1 k1 \<noteq> m0 k1"
  then obtain new where "(k1, new) \<in> set ps" "m1 k1 = Some new"
    "case m0 k1 of None \<Rightarrow> True | Some old \<Rightarrow> py_gt new old = Inr True"
    using record_max_values_changed by blast
  then show "\<exists>new. (k1, new) \<in> set ps \<and> m1 k1 = Some new
         \<and> (m0 k1 = None \<or> (\<exists>old. m0 k1 = Some old \<and> py_gt new old = Inr True))"
    by (cases "m0 k1") auto
qed

lemma sample_raise:
  "main_loop_body sample_externals sample_larger_dir sample_kept = Inr sample_raised"
  apply (simp add: main_loop_body_def hash_task_def compute_md5_hash_def keep_task_def
      problem_name_def readme_text_def str_int_def digit_char_def
      record_runtime_def RUNTIME_BOUNDS_def runtime_le_def
      dd_value_def runtime_value_def py_gt_def 
      sample_externals_def sample_larger_dir_def sample_kept_def sample_raised_def
      Let_def)
  apply (auto simp: fun_eq_iff)
  done

theorem max_values_never_decrease_witness:
  "main_loop sample_externals [sample_larger_dir] sample_kept = Inr sample_raised
   \<and> max_values sample_kept ''gripper''
       = Some [''rooms'' \<mapsto> VInt 2, ''balls'' \<mapsto> VInt 4, ''planner_runtime'' \<mapsto> VFloat (Fin 15)]
   \<and> [''rooms'' \<mapsto> VInt 2, ''balls'' \<mapsto> VInt 4, ''planner_runtime'' \<mapsto> VFloat (Fin 15)] ''rooms''
       = Some (VInt 2)
   \<and> (\<exists>m' v'. max_values sample_raised ''gripper'' = Some m' \<and> m' ''rooms'' = Some v'
         \<and> (v' = VInt 2 \<or> py_gt v' (VInt 2) = Inr True))
   \<and> record_max_values [(''rooms'', VInt 3), (''balls'', VInt 1)]
         [''rooms'' \<mapsto> VInt 2, ''balls'' \<mapsto> VInt 4]
       = Inr [''rooms'' \<mapsto> VInt 3, ''balls'' \<mapsto> VInt 4]
   \<and> [''rooms'' \<mapsto> VInt 3, ''balls'' \<mapsto> VInt 4] ''rooms''
       \<noteq> [''rooms'' \<mapsto> VInt 2, ''balls'' \<mapsto> VInt 4] ''rooms''
   \<and> (\<exists>new. (''rooms'', new) \<in> set [(''rooms'', VInt 3), (''balls'', VInt 1)]
         \<and> [''rooms'' \<mapsto> VInt 3, ''balls'' \<mapsto> VInt 4] ''rooms'' = Some new
         \<and> ([''rooms'' \<mapsto> VInt 2, ''balls'' \<mapsto> VInt 4] ''rooms'' = None
            \<or> (\<exists>old. [''rooms'' \<mapsto> VInt 2, ''balls'' \<mapsto> VInt 4] ''rooms'' = Some old
                  \<and> py_gt new old = Inr True)))"
proof -
  have h1: "main_loop sample_externals [sample_larger_dir] sample_kept = Inr sample_raised
     \<and> max_values sample_kept ''gripper''
         = Some [''rooms'' \<mapsto> VInt 2, ''balls'' \<mapsto> VInt 4, ''planner_runtime'' \<mapsto> VFloat (Fin 15)]
     \<and> [''rooms'' \<mapsto> VInt 2, ''balls'' \<mapsto> VInt 4, ''planner_runtime'' \<mapsto> VFloat (Fin 15)] ''rooms''
         = Some (VInt 2)"
    by (simp add: sample_raise) (simp add: sample_kept_def)
  have h2: "record_max_values [(''rooms'', VInt 3), (''balls'', VInt 1)]
         [''rooms'' \<mapsto> VInt 2, ''balls'' \<mapsto> VInt 4]
       = Inr [''rooms'' \<mapsto> VInt 3, ''balls'' \<mapsto> VInt 4]
     \<and> [''rooms'' \<mapsto> VInt 3, ''balls'' \<mapsto> VInt 4] ''rooms''
       \<noteq> [''rooms'' \<mapsto> VInt 2, ''balls'' \<mapsto> VInt 4] ''rooms''"
    by (auto simp: py_gt_def fun_eq_iff)
  from max_values_never_decrease
    [where ext = sample_externals and plan_dirs = "[sample_larger_dir]" and st = sample_kept
      and st' = sample_raised and d = "''gripper''"
      and m = "[''rooms'' \<mapsto> VInt 2, ''balls'' \<mapsto> VInt 4, ''planner_runtime'' \<mapsto> VFloat (Fin 15)]"
      and k = "''rooms''" and v = "VInt 2"
      and ps = "[(''rooms'', VInt 3), (''balls'', VInt 1)]"
      and ?m0.0 = "[''rooms'' \<mapsto> VInt 2, ''balls'' \<mapsto> VInt 4]"
      and ?m1.0 = "[''rooms'' \<mapsto> VInt 3, ''balls'' \<mapsto> VInt 4]" and ?k1.0 = "''rooms''"]
    h1 h2
  show ?thesis by blast
qed

lemma keep_task_dest:
  assumes "keep_task ext pd pr h st = Inr st'"
  shows "\<exists>W G. \<forall>D F. keep_task ext pd pr h (st\<lparr>dest_dirs := D, dest_files := F\<rparr>)
           = Inr (st'\<lparr>dest_dirs := D \<union> W, dest_files := F ++ G\<rparr>)"
  using assms
proof (rule keep_task_Inr)
  fix domain_max domain_runtimes problem domain_file
  assume rmv: "record_max_values
       (dict_set ''planner_runtime'' (runtime_value (p_runtime pr)) (p_parameters pr))
       (dd_value (max_values st) (p_domain pr) Map.empty) = Inr domain_max"
    and rr: "record_runtime (dd_value (seen_runtimes st) (p_domain pr) Map.empty) (p_runtime pr)
       = Inr domain_runtimes"
    and files: "problem_pddl pd = Some problem" "domain_pddl pd = Some domain_file"
    and st': "st' = \<lparr> max_values = (max_values st)(p_domain pr \<mapsto> domain_max),
             seen_task_hashes = (seen_task_hashes st)
               (p_domain pr \<mapsto> insert h (dd_value (seen_task_hashes st) (p_domain pr) {})),
             seen_runtimes = (seen_runtimes st)(p_domain pr \<mapsto> domain_runtimes),
             dest_dirs = insert (p_domain pr) (dest_dirs st),
             dest_files = (dest_files st)
               ((p_domain pr, problem_name ext pr) \<mapsto> problem,
                (p_domain pr, ''domain.pddl'') \<mapsto> domain_file,
                (p_domain pr, ''README'') \<mapsto> readme_text pr) \<rparr>"
  let ?W = "{p_domain pr}"
  let ?G = "[(p_domain pr, problem_name ext pr) \<mapsto> problem,
             (p_domain pr, ''domain.pddl'') \<mapsto> domain_file,
             (p_domain pr, ''README'') \<mapsto> readme_text pr]"
  have "keep_task ext pd pr h (st\<lparr>dest_dirs := D, dest_files := F\<rparr>)
           = Inr (st'\<lparr>dest_dirs := D \<union> ?W, dest_files := F ++ ?G\<rparr>)" for D F
    using rmv rr files st' by (simp add: keep_task_def Let_def)
  then show ?thesis by blast
qed

lemma main_loop_body_skip_dest:
  assumes "main_loop_body ext pd st = Inr st'"
    and "\<not> (\<exists>pr problem. properties_json pd = Some pr \<and> p_planner_exitcode pr = 0
           \<and> problem_pddl pd = Some problem
           \<and> compute_md5_hash ext problem \<notin> dd_value (seen_task_hashes st) (p_domain pr) {})"
  shows "st' = st \<and>
     main_loop_body ext pd (st\<lparr>dest_dirs := D, dest_files := F\<rparr>)
       = Inr (st\<lparr>dest_dirs := D, dest_files := F\<rparr>)"
  using assms unfolding main_loop_body_def hash_task_def
  by (auto split: option.splits if_splits sum.splits simp: dd_touch_seen)

lemma main_loop_body_dest:
  assumes "main_loop_body ext pd st = Inr st'"
  shows "\<exists>W G. \<forall>D F. main_loop_body ext pd (st\<lparr>dest_dirs := D, dest_files := F\<rparr>)
           = Inr (st'\<lparr>dest_dirs := D \<union> W, dest_files := F ++ G\<rparr>)"
proof (cases "\<exists>pr problem. properties_json pd = Some pr \<and> p_planner_exitcode pr = 0
           \<and> problem_pddl pd = Some problem
           \<and> compute_md5_hash ext problem \<notin> dd_value (seen_task_hashes st) (p_domain pr) {}")
  case False
  have "main_loop_body ext pd (st\<lparr>dest_dirs := D, dest_files := F\<rparr>)
      = Inr (st'\<lparr>dest_dirs := D \<union> {}, dest_files := F ++ Map.empty\<rparr>)" for D F
    using main_loop_body_skip_dest [OF assms False, where D = D and F = F] by simp
  then show ?thesis by blast
next
  case True
  then obtain pr problem where kept: "properties_json pd = Some pr" "p_planner_exitcode pr = 0"
    "problem_pddl pd = Some problem"
    "compute_md5_hash ext problem \<notin> dd_value (seen_task_hashes st) (p_domain pr) {}"
    by blast
  with assms have "keep_task ext pd pr (compute_md5_hash ext problem) st = Inr st'"
    by (simp add: main_loop_body_kept)
  from keep_task_dest [OF this] obtain W G where
    WG: "\<And>D F. keep_task ext pd pr (compute_md5_hash ext problem)
            (st\<lparr>dest_dirs := D, dest_files := F\<rparr>)
          = Inr (st'\<lparr>dest_dirs := D \<union> W, dest_files := F ++ G\<rparr>)" by blast
  have "main_loop_body ext pd (st\<lparr>dest_dirs := D, dest_files := F\<rparr>)
      = Inr (st'\<lparr>dest_dirs := D \<union> W, dest_files := F ++ G\<rparr>)" for D F
    using main_loop_body_kept [of pd pr problem ext "st\<lparr>dest_dirs := D, dest_files := F\<rparr>"]
      kept WG by simp
  then show ?thesis by blast
qed

lemma main_loop_dest:
  "main_loop ext plan_dirs st = Inr st' \<Longrightarrow>
   \<exists>W G. \<forall>D F. main_loop ext plan_dirs (st\<lparr>dest_dirs := D, dest_files := F\<rparr>)
           = Inr (st'\<lparr>dest_dirs := D \<union> W, dest_files := F ++ G\<rparr>)"
proof (induction plan_dirs arbitrary: st)
  case Nil
  then have "main_loop ext [] (st\<lparr>dest_dirs := D, dest_files := F\<rparr>)
           = Inr (st'\<lparr>dest_dirs := D \<union> {}, dest_files := F ++ Map.empty\<rparr>)" for D F
    by simp
  then show ?case by blast
next
  case (Cons pd plan_dirs)
  from Cons.prems obtain st1 where
    body: "main_loop_body ext pd st = Inr st1" and rest: "main_loop ext plan_dirs st1 = Inr st'"
    by (auto split: sum.splits)
  from main_loop_body_dest [OF body] obtain W1 G1 where
    one: "\<And>D F. main_loop_body ext pd (st\<lparr>dest_dirs := D, dest_files := F\<rparr>)
           = Inr (st1\<lparr>dest_dirs := D \<union> W1, dest_files := F ++ G1\<rparr>)" by blast
  from Cons.IH [OF rest] obtain W2 G2 where
    two: "\<And>D F. main_loop ext plan_dirs (st1\<lparr>dest_dirs := D, dest_files := F\<rparr>)
           = Inr (st'\<lparr>dest_dirs := D \<union> W2, dest_files := F ++ G2\<rparr>)" by blast
  have "main_loop ext (pd # plan_dirs) (st\<lparr>dest_dirs := D, dest_files := F\<rparr>)
           = Inr (st'\<lparr>dest_dirs := D \<union> (W1 \<union> W2), dest_files := F ++ (G1 ++ G2)\<rparr>)" for D F
    using one [where D = D and F = F] two [where D = "D \<union> W1" and F = "F ++ G1"] by (simp add: Un_assoc)
  then show ?case by blast
qed

text \<open>
  Claim C4. When a collection run on a destination tree ends normally, a second run on the
  same plan directories and on the tree the first run left ends in the very same state: the
  same directories and the same files with the same contents.
\<close>

theorem collection_idempotent:
  "main ext plan_dirs dirs files = Inr st \<Longrightarrow>
   main ext plan_dirs (dest_dirs st) (dest_files st) = Inr st"
proof -
  let ?start = "\<lambda>D F. \<lparr> max_values = Map.empty, seen_task_hashes = Map.empty,
      seen_runtimes = Map.empty, dest_dirs = D, dest_files = F \<rparr>"
  assume run: "main ext plan_dirs dirs files = Inr st"
  then have "main_loop ext plan_dirs (?start dirs files) = Inr st" by (simp add: main_def)
  from main_loop_dest [OF this] obtain W G where
    any: "\<And>D F. main_loop ext plan_dirs ((?start dirs files)\<lparr>dest_dirs := D, dest_files := F\<rparr>)
           = Inr (st\<lparr>dest_dirs := D \<union> W, dest_files := F ++ G\<rparr>)" by blast
  have start: "(?start dirs files)\<lparr>dest_dirs := D, dest_files := F\<rparr> = ?start D F" for D F
    by simp
  from any [where D = dirs and F = files] run have "st = st\<lparr>dest_dirs := dirs \<union> W, dest_files := files ++ G\<rparr>"
    by (simp add: main_def)
  then have first: "dest_dirs st = dirs \<union> W" "dest_files st = files ++ G"
    by (metis collect_state.select_convs(4) collect_state.surjective collect_state.update_convs(4) collect_state.update_convs(5),
        metis collect_state.select_convs(5) collect_state.surjective collect_state.update_convs(5))
  have "main ext plan_dirs (dest_dirs st) (dest_files st)
      = Inr (st\<lparr>dest_dirs := dest_dirs st \<union> W, dest_files := dest_files st ++ G\<rparr>)"
    using any [where D = "dest_dirs st" and F = "dest_files st"] by (simp add: main_def)
  also have "dest_dirs st \<union> W = dest_dirs st" using first by auto
  also have "dest_files st ++ G = dest_files st"
    using first by (auto simp: map_add_def fun_eq_iff split: option.splits)
  finally show ?thesis by simp
qed

lemma sample_missing_body:
  "main_loop_body sample_externals sample_missing_dir st = Inr st"
  by (simp add: main_loop_body_def sample_missing_dir_def sample_plan_dir_def)

lemma sample_duplicate_body:
  "main_loop_body sample_externals sample_plan_dir sample_kept = Inr sample_kept"
  by (simp add: main_loop_body_def hash_task_def compute_md5_hash_def dd_value_def dd_touch_def
      sample_externals_def sample_plan_dir_def sample_props_def sample_kept_def)

lemma sample_main:
  "main sample_externals
     [sample_plan_dir, sample_failed_dir, sample_plan_dir, sample_missing_dir] {} Map.empty
   = Inr sample_kept"
  unfolding main_def sample_start_def [symmetric]
  by (simp add: sample_keep sample_failed_body sample_duplicate_body sample_missing_body)

theorem collection_idempotent_witness:
  "main sample_externals
     [sample_plan_dir, sample_failed_dir, sample_plan_dir, sample_missing_dir] {} Map.empty
     = Inr sample_kept
   \<and> main sample_externals
     [sample_plan_dir, sample_failed_dir, sample_plan_dir, sample_missing_dir]
     (dest_dirs sample_kept) (dest_files sample_kept)
     = Inr sample_kept"
  using collection_idempotent [OF sample_main] sample_main by simp

lemma keep_task_seen_origin:
  assumes "keep_task ext pd pr h st = Inr st'" "x \<in> dd_value (seen_task_hashes st') d {}"
  shows "x \<in> dd_value (seen_task_hashes st) d {} \<or> (d = p_domain pr \<and> x = h)"
  using assms by (auto elim!: keep_task_Inr simp: dd_value_def split: if_splits)

lemma keep_task_seen_frame:
  assumes "keep_task ext pd pr h st = Inr st'" "d \<noteq> p_domain pr"
  shows "seen_task_hashes st' d = seen_task_hashes st d"
  using assms by (auto elim!: keep_task_Inr)

lemma main_loop_seen_origin:
  "main_loop ext plan_dirs st = Inr st' \<Longrightarrow> x \<in> dd_value (seen_task_hashes st') d {} \<Longrightarrow>
   x \<in> dd_value (seen_task_hashes st) d {}
   \<or> (\<exists>pd\<in>set plan_dirs. \<exists>pr problem. properties_json pd = Some pr
         \<and> p_planner_exitcode pr = 0 \<and> p_domain pr = d
         \<and> problem_pddl pd = Some problem \<and> md5_hexdigest ext problem = x)"
proof (induction plan_dirs arbitrary: st)
  case Nil
  then show ?case by simp
next
  case (Cons pd plan_dirs)
  from Cons.prems(1) obtain st1 where
    body: "main_loop_body ext pd st = Inr st1" and rest: "main_loop ext plan_dirs st1 = Inr st'"
    by (auto split: sum.splits)
  from Cons.IH [OF rest Cons.prems(2)] show ?case
  proof
    assume in1: "x \<in> dd_value (seen_task_hashes st1) d {}"
    from body show ?thesis
    proof (cases rule: main_loop_body_cases)
      case skipped
      with in1 show ?thesis by simp
    next
      case (kept pr problem)
      from keep_task_seen_origin [OF kept(5) in1]
      have "x \<in> dd_value (seen_task_hashes st) d {}
          \<or> (d = p_domain pr \<and> x = md5_hexdigest ext problem)"
        by (simp add: compute_md5_hash_def)
      with kept(1,2,3) show ?thesis by auto
    qed
  next
    assume "\<exists>pd\<in>set plan_dirs. \<exists>pr problem. properties_json pd = Some pr
         \<and> p_planner_exitcode pr = 0 \<and> p_domain pr = d
         \<and> problem_pddl pd = Some problem \<and> md5_hexdigest ext problem = x"
    then show ?thesis by auto
  qed
qed

text \<open>
  Claim C2. Duplicates are decided by the digest \<^verbatim>\<open>md5_hexdigest\<close> of the text of the
  problem file, within a domain. First: once the loop body has processed a directory with exit
  code 0, any later directory of the same domain whose problem file has the same digest (the
  texts may differ) is skipped: the state stays as it is and nothing is copied. Second: a
  task with exit code 0 is not discarded when no earlier directory of its own domain had a
  problem file with its digest, whatever digests earlier directories of other domains had:
  the loop body keeps it (it returns normally when both files exist, the runtime is a float
  and the parameter values compare with the stored maxima), copies its problem file, adds the
  digest to the set of its own domain and leaves the set of every other domain as it was.
\<close>

theorem duplicates_skipped_per_domain:
  "(properties_json pd1 = Some pr1 \<and> p_planner_exitcode pr1 = 0
      \<and> problem_pddl pd1 = Some problem1
      \<and> main_loop_body ext pd1 st0 = Inr st1 \<and> main_loop ext between st1 = Inr st2
      \<and> properties_json pd2 = Some pr2 \<and> p_domain pr2 = p_domain pr1
      \<and> problem_pddl pd2 = Some problem2
      \<and> md5_hexdigest ext problem2 = md5_hexdigest ext problem1
    \<longrightarrow> main_loop_body ext pd2 st2 = Inr st2)
   \<and> (main_loop ext before start = Inr st
      \<and> md5_hexdigest ext problem \<notin> dd_value (seen_task_hashes start) (p_domain pr) {}
      \<and> (\<forall>pd'\<in>set before. \<forall>pr' problem'.
            properties_json pd' = Some pr' \<and> p_planner_exitcode pr' = 0
            \<and> problem_pddl pd' = Some problem'
            \<and> md5_hexdigest ext problem' = md5_hexdigest ext problem
            \<longrightarrow> p_domain pr' \<noteq> p_domain pr)
      \<and> properties_json pd = Some pr \<and> p_planner_exitcode pr = 0
      \<and> problem_pddl pd = Some problem \<and> domain_pddl pd = Some domain_file
      \<and> p_runtime pr = Some r
      \<and> record_max_values
           (dict_set ''planner_runtime'' (runtime_value (p_runtime pr)) (p_parameters pr))
           (dd_value (max_values st) (p_domain pr) Map.empty) = Inr domain_max
    \<longrightarrow> (\<exists>st'. main_loop_body ext pd st = Inr st'
          \<and> dest_files st' (p_domain pr, problem_name ext pr) = Some problem
          \<and> seen_task_hashes st' (p_domain pr)
              = Some (insert (md5_hexdigest ext problem)
                        (dd_value (seen_task_hashes st) (p_domain pr) {}))
          \<and> (\<forall>d. d \<noteq> p_domain pr \<longrightarrow> seen_task_hashes st' d = seen_task_hashes st d)))"
proof (intro conjI impI)
  assume a: "properties_json pd1 = Some pr1 \<and> p_planner_exitcode pr1 = 0
      \<and> problem_pddl pd1 = Some problem1
      \<and> main_loop_body ext pd1 st0 = Inr st1 \<and> main_loop ext between st1 = Inr st2
      \<and> properties_json pd2 = Some pr2 \<and> p_domain pr2 = p_domain pr1
      \<and> problem_pddl pd2 = Some problem2
      \<and> md5_hexdigest ext problem2 = md5_hexdigest ext problem1"
  have "compute_md5_hash ext problem1 \<in> dd_value (seen_task_hashes st1) (p_domain pr1) {}"
  proof (cases "compute_md5_hash ext problem1
      \<in> dd_value (seen_task_hashes st0) (p_domain pr1) {}")
    case True
    with a show ?thesis using main_loop_body_seen by blast
  next
    case False
    with a have "main_loop_body ext pd1 st0
        = keep_task ext pd1 pr1 (compute_md5_hash ext problem1) st0"
      by (intro main_loop_body_kept) simp_all
    with a have "keep_task ext pd1 pr1 (compute_md5_hash ext problem1) st0 = Inr st1"
      by simp
    then show ?thesis by (rule keep_task_files(5))
  qed
  with a have "compute_md5_hash ext problem1
      \<in> dd_value (seen_task_hashes st2) (p_domain pr2) {}"
    using main_loop_seen by metis
  with a have "compute_md5_hash ext problem2
      \<in> dd_value (seen_task_hashes st2) (p_domain pr2) {}"
    by (simp add: compute_md5_hash_def)
  with a show "main_loop_body ext pd2 st2 = Inr st2"
    by (simp add: main_loop_body_duplicate)
next
  assume a: "main_loop ext before start = Inr st
      \<and> md5_hexdigest ext problem \<notin> dd_value (seen_task_hashes start) (p_domain pr) {}
      \<and> (\<forall>pd'\<in>set before. \<forall>pr' problem'.
            properties_json pd' = Some pr' \<and> p_planner_exitcode pr' = 0
            \<and> problem_pddl pd' = Some problem'
            \<and> md5_hexdigest ext problem' = md5_hexdigest ext problem
            \<longrightarrow> p_domain pr' \<noteq> p_domain pr)
      \<and> properties_json pd = Some pr \<and> p_planner_exitcode pr = 0
      \<and> problem_pddl pd = Some problem \<and> domain_pddl pd = Some domain_file
      \<and> p_runtime pr = Some r
      \<and> record_max_values
           (dict_set ''planner_runtime'' (runtime_value (p_runtime pr)) (p_parameters pr))
           (dd_value (max_values st) (p_domain pr) Map.empty) = Inr domain_max"
  have fresh: "md5_hexdigest ext problem \<notin> dd_value (seen_task_hashes st) (p_domain pr) {}"
  proof
    assume "md5_hexdigest ext problem \<in> dd_value (seen_task_hashes st) (p_domain pr) {}"
    with a have "\<exists>pd'\<in>set before. \<exists>pr' problem'. properties_json pd' = Some pr'
         \<and> p_planner_exitcode pr' = 0 \<and> p_domain pr' = p_domain pr
         \<and> problem_pddl pd' = Some problem'
         \<and> md5_hexdigest ext problem' = md5_hexdigest ext problem"
      using main_loop_seen_origin [of ext before start st "md5_hexdigest ext problem" "p_domain pr"]
      by blast
    with a show False by blast
  qed
  then have fresh': "compute_md5_hash ext problem
      \<notin> dd_value (seen_task_hashes st) (p_domain pr) {}"
    by (simp add: compute_md5_hash_def)
  from a have rmv: "record_max_values
           (dict_set ''planner_runtime'' (runtime_value (p_runtime pr)) (p_parameters pr))
           (dd_value (max_values st) (p_domain pr) Map.empty) = Inr domain_max"
    and rt: "p_runtime pr = Some r" and pf: "problem_pddl pd = Some problem"
    and df: "domain_pddl pd = Some domain_file"
    and pj: "properties_json pd = Some pr" and ex: "p_planner_exitcode pr = 0"
    by blast+
  from keep_task_total [OF rmv rt pf df] obtain st' where
    keep: "keep_task ext pd pr (compute_md5_hash ext problem) st = Inr st'" by blast
  from pj ex pf fresh' have body: "main_loop_body ext pd st
      = keep_task ext pd pr (compute_md5_hash ext problem) st"
    by (rule main_loop_body_kept)
  have seen: "seen_task_hashes st' (p_domain pr)
      = Some (insert (md5_hexdigest ext problem)
                (dd_value (seen_task_hashes st) (p_domain pr) {}))"
    using keep by (auto elim!: keep_task_Inr simp: compute_md5_hash_def)
  have frame: "\<forall>d. d \<noteq> p_domain pr \<longrightarrow> seen_task_hashes st' d = seen_task_hashes st d"
    using keep_task_seen_frame [OF keep] by blast
  from keep_task_files(1) [OF keep] pf body keep seen frame
  show "\<exists>st'. main_loop_body ext pd st = Inr st'
          \<and> dest_files st' (p_domain pr, problem_name ext pr) = Some problem
          \<and> seen_task_hashes st' (p_domain pr)
              = Some (insert (md5_hexdigest ext problem)
                        (dd_value (seen_task_hashes st) (p_domain pr) {}))
          \<and> (\<forall>d. d \<noteq> p_domain pr \<longrightarrow> seen_task_hashes st' d = seen_task_hashes st d)"
    by auto
qed

lemma sample_keep_prefix:
  "main_loop_body sample_prefix_externals sample_plan_dir sample_start = Inr sample_kept_prefix"
  by (simp add: main_loop_body_def hash_task_def compute_md5_hash_def keep_task_def
      problem_name_def readme_text_def str_int_def digit_char_def
      sample_record_runtime dd_value_def runtime_value_def
      sample_prefix_externals_def sample_plan_dir_def sample_start_def sample_kept_def
      sample_kept_prefix_def sample_props_def Let_def)

lemma sample_failed_body_prefix:
  "main_loop_body sample_prefix_externals sample_failed_dir st = Inr st"
  by (simp add: main_loop_body_def sample_failed_dir_def sample_plan_dir_def sample_props_def)

theorem duplicates_skipped_per_domain_witness:
  "problem_pddl sample_plan_dir = Some ''(define (problem p))''
   \<and> problem_pddl sample_collision_dir = Some ''(define (problem q))''
   \<and> md5_hexdigest sample_prefix_externals ''(define (problem q))''
       = md5_hexdigest sample_prefix_externals ''(define (problem p))''
   \<and> main_loop_body sample_prefix_externals sample_plan_dir sample_start
       = Inr sample_kept_prefix
   \<and> main_loop sample_prefix_externals [sample_failed_dir] sample_kept_prefix
       = Inr sample_kept_prefix
   \<and> main_loop_body sample_prefix_externals sample_collision_dir sample_kept_prefix
       = Inr sample_kept_prefix
   \<and> main_loop sample_externals [sample_plan_dir] sample_start = Inr sample_kept
   \<and> problem_pddl sample_other_domain_dir = Some ''(define (problem p))''
   \<and> md5_hexdigest sample_externals ''(define (problem p))''
       \<in> dd_value (seen_task_hashes sample_kept) ''gripper'' {}
   \<and> (\<exists>st'. main_loop_body sample_externals sample_other_domain_dir sample_kept = Inr st'
         \<and> dest_files st' (''blocks'', ''p-rooms-balls-7.pddl'') = Some ''(define (problem p))''
         \<and> seen_task_hashes st' ''blocks'' = Some {''(define (problem p))''}
         \<and> seen_task_hashes st' ''gripper'' = Some {''(define (problem p))''})"
proof -
  have dir1: "properties_json sample_plan_dir = Some sample_props"
    "p_planner_exitcode sample_props = 0" "p_domain sample_props = ''gripper''"
    "problem_pddl sample_plan_dir = Some ''(define (problem p))''"
    by (simp_all add: sample_plan_dir_def sample_props_def)
  have dir2: "properties_json sample_collision_dir = Some sample_props"
    "problem_pddl sample_collision_dir = Some ''(define (problem q))''"
    by (simp_all add: sample_collision_dir_def sample_plan_dir_def)
  have digest: "md5_hexdigest sample_prefix_externals ''(define (problem q))''
       = md5_hexdigest sample_prefix_externals ''(define (problem p))''"
    by (simp add: sample_prefix_externals_def)
  have between: "main_loop sample_prefix_externals [sample_failed_dir] sample_kept_prefix
       = Inr sample_kept_prefix"
    by (simp add: sample_failed_body_prefix)
  from duplicates_skipped_per_domain
    [where ?pd1.0 = sample_plan_dir and ?pr1.0 = sample_props
      and ?problem1.0 = "''(define (problem p))''" and ext = sample_prefix_externals
      and ?st0.0 = sample_start and ?st1.0 = sample_kept_prefix
      and between = "[sample_failed_dir]" and ?st2.0 = sample_kept_prefix
      and ?pd2.0 = sample_collision_dir and ?pr2.0 = sample_props
      and ?problem2.0 = "''(define (problem q))''"]
    dir1 dir2 digest sample_keep_prefix between
  have skipped: "main_loop_body sample_prefix_externals sample_collision_dir sample_kept_prefix
       = Inr sample_kept_prefix"
    by blast
  have before: "main_loop sample_externals [sample_plan_dir] sample_start = Inr sample_kept"
    by (simp add: sample_keep)
  have dir3: "properties_json sample_other_domain_dir
        = Some (sample_props\<lparr>p_domain := ''blocks''\<rparr>)"
    "p_planner_exitcode (sample_props\<lparr>p_domain := ''blocks''\<rparr>) = 0"
    "problem_pddl sample_other_domain_dir = Some ''(define (problem p))''"
    "domain_pddl sample_other_domain_dir = Some ''(define (domain gripper))''"
    "p_runtime (sample_props\<lparr>p_domain := ''blocks''\<rparr>) = Some (Fin 15)"
    by (simp_all add: sample_other_domain_dir_def sample_plan_dir_def sample_props_def)
  have dom: "p_domain (sample_props\<lparr>p_domain := ''blocks''\<rparr>) = ''blocks''" by simp
  have fresh: "md5_hexdigest sample_externals ''(define (problem p))''
       \<notin> dd_value (seen_task_hashes sample_start)
            (p_domain (sample_props\<lparr>p_domain := ''blocks''\<rparr>)) {}"
    by (simp add: sample_start_def dd_value_def)
  have others: "\<forall>pd'\<in>set [sample_plan_dir]. \<forall>pr' problem'.
            properties_json pd' = Some pr' \<and> p_planner_exitcode pr' = 0
            \<and> problem_pddl pd' = Some problem'
            \<and> md5_hexdigest sample_externals problem'
                = md5_hexdigest sample_externals ''(define (problem p))''
            \<longrightarrow> p_domain pr' \<noteq> p_domain (sample_props\<lparr>p_domain := ''blocks''\<rparr>)"
    by (simp add: sample_plan_dir_def sample_props_def)
  have rmv: "record_max_values
       (dict_set ''planner_runtime''
          (runtime_value (p_runtime (sample_props\<lparr>p_domain := ''blocks''\<rparr>)))
          (p_parameters (sample_props\<lparr>p_domain := ''blocks''\<rparr>)))
       (dd_value (max_values sample_kept)
          (p_domain (sample_props\<lparr>p_domain := ''blocks''\<rparr>)) Map.empty)
     = Inr [''rooms'' \<mapsto> VInt 2, ''balls'' \<mapsto> VInt 4, ''planner_runtime'' \<mapsto> VFloat (Fin 15)]"
    by (simp add: sample_props_def sample_kept_def dd_value_def runtime_value_def)
  have seen: "md5_hexdigest sample_externals ''(define (problem p))''
       \<in> dd_value (seen_task_hashes sample_kept) ''gripper'' {}"
    "seen_task_hashes sample_kept ''gripper'' = Some {''(define (problem p))''}"
    "dd_value (seen_task_hashes sample_kept) ''blocks'' {} = {}"
    "md5_hexdigest sample_externals ''(define (problem p))'' = ''(define (problem p))''"
    by (simp_all add: sample_externals_def sample_kept_def dd_value_def)
  have name: "problem_name sample_externals (sample_props\<lparr>p_domain := ''blocks''\<rparr>)
      = ''p-rooms-balls-7.pddl''"
    by (simp add: problem_name_def sample_externals_def sample_props_def str_int_def
        digit_char_def)
  from duplicates_skipped_per_domain
    [where ext = sample_externals and before = "[sample_plan_dir]" and start = sample_start
      and st = sample_kept and problem = "''(define (problem p))''"
      and pr = "sample_props\<lparr>p_domain := ''blocks''\<rparr>" and pd = sample_other_domain_dir
      and domain_file = "''(define (domain gripper))''" and r = "Fin 15"
      and domain_max = "[''rooms'' \<mapsto> VInt 2, ''balls'' \<mapsto> VInt 4,
         ''planner_runtime'' \<mapsto> VFloat (Fin 15)]"]
    before fresh others dir3 rmv
  obtain st' where st':
    "main_loop_body sample_externals sample_other_domain_dir sample_kept = Inr st'"
    "dest_files st' (p_domain (sample_props\<lparr>p_domain := ''blocks''\<rparr>),
        problem_name sample_externals (sample_props\<lparr>p_domain := ''blocks''\<rparr>))
      = Some ''(define (problem p))''"
    "seen_task_hashes st' (p_domain (sample_props\<lparr>p_domain := ''blocks''\<rparr>))
      = Some (insert (md5_hexdigest sample_externals ''(define (problem p))'')
                (dd_value (seen_task_hashes sample_kept)
                   (p_domain (sample_props\<lparr>p_domain := ''blocks''\<rparr>)) {}))"
    "\<forall>d. d \<noteq> p_domain (sample_props\<lparr>p_domain := ''blocks''\<rparr>)
        \<longrightarrow> seen_task_hashes st' d = seen_task_hashes sample_kept d"
    by blast
  from st'(4) have "seen_task_hashes st' ''gripper'' = seen_task_hashes sample_kept ''gripper''"
    by simp
  with st'(1,2,3) seen name dom
  have kept: "\<exists>st'. main_loop_body sample_externals sample_other_domain_dir sample_kept = Inr st'
         \<and> dest_files st' (''blocks'', ''p-rooms-balls-7.pddl'') = Some ''(define (problem p))''
         \<and> seen_task_hashes st' ''blocks'' = Some {''(define (problem p))''}
         \<and> seen_task_hashes st' ''gripper'' = Some {''(define (problem p))''}"
    by auto
  from dir1(4) dir2(2) digest sample_keep_prefix between skipped before dir3(3) seen(1) kept
  show ?thesis by blast
qed

text \<open>
  Claim C5. After the loop body has kept a task, the \<^verbatim>\<open>README\<close> in the directory of its
  domain is the line \<^verbatim>\<open>Parameter order: \<close> followed by the parameter keys of the record in
  ascending order, joined by a comma and a space, and a newline.
\<close>

theorem readme_parameter_order:
  assumes "properties_json pd = Some pr" and "p_planner_exitcode pr = 0"
    and "problem_pddl pd = Some problem"
    and "compute_md5_hash ext problem \<notin> dd_value (seen_task_hashes st) (p_domain pr) {}"
    and "main_loop_body ext pd st = Inr st'"
  shows "\<exists>keys. dest_files st' (p_domain pr, ''README'')
             = Some (''Parameter order: '' @ join_str '', '' keys @ [CHR 0x0A])
           \<and> sorted keys \<and> mset keys = mset (map fst (p_parameters pr))"
proof -
  from assms have "keep_task ext pd pr (compute_md5_hash ext problem) st = Inr st'"
    by (simp add: main_loop_body_kept)
  then have "dest_files st' (p_domain pr, ''README'') = Some (readme_text pr)"
    by (rule keep_task_files(3))
  then have "dest_files st' (p_domain pr, ''README'')
      = Some (''Parameter order: '' @ join_str '', '' (sort (map fst (p_parameters pr)))
          @ [CHR 0x0A])"
    by (simp add: readme_text_def)
  moreover have "sorted (sort (map fst (p_parameters pr)))" by simp
  moreover have "mset (sort (map fst (p_parameters pr))) = mset (map fst (p_parameters pr))"
    by simp
  ultimately show ?thesis by blast
qed

theorem readme_parameter_order_witness:
  "properties_json sample_plan_dir = Some sample_props
   \<and> p_planner_exitcode sample_props = 0
   \<and> map fst (p_parameters sample_props) = [''rooms'', ''balls'']
   \<and> main_loop_body sample_externals sample_plan_dir sample_start = Inr sample_kept
   \<and> dest_files sample_kept (''gripper'', ''README'')
       = Some (''Parameter order: balls, rooms'' @ [CHR 0x0A])
   \<and> (\<exists>keys. dest_files sample_kept (p_domain sample_props, ''README'')
             = Some (''Parameter order: '' @ join_str '', '' keys @ [CHR 0x0A])
           \<and> sorted keys \<and> mset keys = mset (map fst (p_parameters sample_props)))"
proof -
  have dir: "properties_json sample_plan_dir = Some sample_props"
    "p_planner_exitcode sample_props = 0"
    "problem_pddl sample_plan_dir = Some ''(define (problem p))''"
    "map fst (p_parameters sample_props) = [''rooms'', ''balls'']"
    by (simp_all add: sample_plan_dir_def sample_props_def)
  have fresh: "compute_md5_hash sample_externals ''(define (problem p))''
      \<notin> dd_value (seen_task_hashes sample_start) (p_domain sample_props) {}"
    by (simp add: sample_start_def dd_value_def)
  have readme: "dest_files sample_kept (''gripper'', ''README'')
       = Some (''Parameter order: balls, rooms'' @ [CHR 0x0A])"
    by (simp add: sample_kept_def)
  from readme_parameter_order [OF dir(1,2,3) fresh sample_keep] dir readme sample_keep
  show ?thesis by blast
qed

text \<open>
  Claim C6. A task with exit code 0, a float runtime, both files present, a digest not yet
  seen in its domain and parameter values that compare with the stored maxima is kept: the
  loop body returns normally; the problem file is at \<^verbatim>\<open>p-<params>-<seed>.pddl\<close> in the
  directory of the domain, where \<^verbatim>\<open><params>\<close> is what \<^verbatim>\<open>join_parameters\<close> returns;
  \<^verbatim>\<open>domain.pddl\<close> is in the same directory; and that directory exists afterwards.
\<close>

theorem kept_files_copied:
  assumes "properties_json pd = Some pr" and "p_planner_exitcode pr = 0"
    and "problem_pddl pd = Some problem" and "domain_pddl pd = Some domain_file"
    and "p_runtime pr = Some r"
    and "record_max_values
       (dict_set ''planner_runtime'' (runtime_value (p_runtime pr)) (p_parameters pr))
       (dd_value (max_values st) (p_domain pr) Map.empty) = Inr domain_max"
    and "compute_md5_hash ext problem \<notin> dd_value (seen_task_hashes st) (p_domain pr) {}"
  shows "\<exists>st'. main_loop_body ext pd st = Inr st'
     \<and> dest_files st'
         (p_domain pr,
          ''p-'' @ join_parameters ext (p_parameters pr) @ ''-'' @ str_int (p_seed pr) @ ''.pddl'')
       = Some problem
     \<and> dest_files st' (p_domain pr, ''domain.pddl'') = Some domain_file
     \<and> dest_dirs st' = insert (p_domain pr) (dest_dirs st)"
proof -
  from keep_task_total [OF assms(6,5,3,4)] obtain st' where
    keep: "keep_task ext pd pr (compute_md5_hash ext problem) st = Inr st'" by blast
  from assms have body: "main_loop_body ext pd st
      = keep_task ext pd pr (compute_md5_hash ext problem) st"
    by (intro main_loop_body_kept)
  have dirs: "dest_dirs st' = insert (p_domain pr) (dest_dirs st)"
    using keep by (auto elim!: keep_task_Inr)
  from keep_task_files(1,2) [OF keep] assms(3,4) body keep dirs
  show ?thesis by (simp add: problem_name_def)
qed

theorem kept_files_copied_witness:
  "\<exists>st'. main_loop_body sample_externals sample_plan_dir sample_start = Inr st'
     \<and> dest_files st' (''gripper'', ''p-rooms-balls-7.pddl'') = Some ''(define (problem p))''
     \<and> dest_files st' (''gripper'', ''domain.pddl'') = Some ''(define (domain gripper))''
     \<and> dest_dirs st' = {''gripper''}"
proof -
  have dir: "properties_json sample_plan_dir = Some sample_props"
    "p_planner_exitcode sample_props = 0"
    "problem_pddl sample_plan_dir = Some ''(define (problem p))''"
    "domain_pddl sample_plan_dir = Some ''(define (domain gripper))''"
    "p_runtime sample_props = Some (Fin 15)"
    by (simp_all add: sample_plan_dir_def sample_props_def)
  have rmv: "record_max_values
       (dict_set ''planner_runtime'' (runtime_value (p_runtime sample_props))
          (p_parameters sample_props))
       (dd_value (max_values sample_start) (p_domain sample_props) Map.empty)
     = Inr [''rooms'' \<mapsto> VInt 2, ''balls'' \<mapsto> VInt 4, ''planner_runtime'' \<mapsto> VFloat (Fin 15)]"
    by (simp add: sample_props_def sample_start_def dd_value_def runtime_value_def)
  have fresh: "compute_md5_hash sample_externals ''(define (problem p))''
      \<notin> dd_value (seen_task_hashes sample_start) (p_domain sample_props) {}"
    by (simp add: sample_start_def dd_value_def)
  have name: "''p-'' @ join_parameters sample_externals (p_parameters sample_props) @ ''-''
      @ str_int (p_seed sample_props) @ ''.pddl'' = ''p-rooms-balls-7.pddl''"
    "p_domain sample_props = ''gripper''" "dest_dirs sample_start = {}"
    by (simp_all add: sample_externals_def sample_props_def sample_start_def str_int_def
        digit_char_def)
  from kept_files_copied [OF dir rmv fresh]
  show ?thesis unfolding name .
qed

section \<open>Properties of generate-instances.py\<close>

lemma evaluate_configuration_failed_run:
  assumes "adapt_parameters env cfg0 = Inr cfg" "generate_input_files env cfg seed = Inr pd"
    "run_planner env pd \<noteq> 0"
  shows "evaluate_configuration env cfg0 seed files
     = Inr (VInt 100, store_results env cfg seed pd (run_planner env pd) None files)"
  using assms by (simp add: evaluate_configuration_def Let_def)

lemma evaluate_configuration_solved:
  assumes "adapt_parameters env cfg0 = Inr cfg" "generate_input_files env cfg seed = Inr pd"
    "run_planner env pd = 0" "parse_runtime env pd = Inr runtime"
  shows "evaluate_configuration env cfg0 seed files
     = Inr (VFloat (float_neg runtime), store_results env cfg seed pd 0 (Some runtime) files)"
  using assms by (simp add: evaluate_configuration_def Let_def)

text \<open>
  Claim C3. \<^verbatim>\<open>evaluate_configuration\<close> returns the score 100, and does not raise, when
  \<^verbatim>\<open>adapt_parameters\<close> raises \<^verbatim>\<open>IllegalConfiguration\<close>, when the generator raises
  \<^verbatim>\<open>CalledProcessError\<close>, and when the planner returns a non-zero exit code (in that case
  after storing the record). In the collection, a plan directory without
  \<^verbatim>\<open>properties.json\<close> leaves the state as it is and the loop goes on with the next
  directory.
\<close>

theorem failures_do_not_raise:
  "(adapt_parameters env cfg0 = Inl IllegalConfiguration \<longrightarrow>
      evaluate_configuration env cfg0 seed files = Inr (VInt 100, files))
   \<and> (adapt_parameters env cfg0 = Inr cfg
        \<and> generate_input_files env cfg seed = Inl CalledProcessError \<longrightarrow>
      evaluate_configuration env cfg0 seed files = Inr (VInt 100, files))
   \<and> (adapt_parameters env cfg0 = Inr cfg \<and> generate_input_files env cfg seed = Inr pd
        \<and> run_planner env pd \<noteq> 0 \<longrightarrow>
      evaluate_configuration env cfg0 seed files
        = Inr (VInt 100, store_results env cfg seed pd (run_planner env pd) None files))
   \<and> (properties_json plan_dir = None \<longrightarrow>
      main_loop_body ext plan_dir st = Inr st
      \<and> main_loop ext (plan_dir # plan_dirs) st = main_loop ext plan_dirs st)"
proof (intro conjI impI)
  assume "adapt_parameters env cfg0 = Inl IllegalConfiguration"
  then show "evaluate_configuration env cfg0 seed files = Inr (VInt 100, files)"
    by (simp add: evaluate_configuration_def)
next
  assume "adapt_parameters env cfg0 = Inr cfg
    \<and> generate_input_files env cfg seed = Inl CalledProcessError"
  then show "evaluate_configuration env cfg0 seed files = Inr (VInt 100, files)"
    by (simp add: evaluate_configuration_def)
next
  assume "adapt_parameters env cfg0 = Inr cfg \<and> generate_input_files env cfg seed = Inr pd
    \<and> run_planner env pd \<noteq> 0"
  then show "evaluate_configuration env cfg0 seed files
      = Inr (VInt 100, store_results env cfg seed pd (run_planner env pd) None files)"
    by (simp add: evaluate_configuration_failed_run)
next
  assume "properties_json plan_dir = None"
  then show body: "main_loop_body ext plan_dir st = Inr st"
    by (simp add: main_loop_body_def)
  then show "main_loop ext (plan_dir # plan_dirs) st = main_loop ext plan_dirs st"
    by simp
qed

lemma sample_env_fields:
  "adapt_parameters sample_env [] = Inl IllegalConfiguration"
  "adapt_parameters sample_env sample_cfg = Inr sample_cfg"
  "generate_input_files sample_env sample_cfg (- 1) = Inl CalledProcessError"
  "generate_input_files sample_env sample_cfg 0 = Inr ''plan/0''"
  "generate_input_files sample_env sample_cfg 2 = Inr ''plan/2''"
  "run_planner sample_env ''plan/2'' = 1"
  "run_planner sample_env ''plan/0'' = 0"
  "run_log sample_env ''plan/0'' = Some ''Solution found. runtime: 0.03125s real''"
  "float_of_str sample_env ''0.03125'' = Some (Fin (1 / 32))"
  by (simp_all add: sample_env_def sample_cfg_def str_int_def digit_char_def)

theorem failures_do_not_raise_witness:
  "evaluate_configuration sample_env [] 0 Map.empty = Inr (VInt 100, Map.empty)
   \<and> evaluate_configuration sample_env sample_cfg (- 1) Map.empty = Inr (VInt 100, Map.empty)
   \<and> evaluate_configuration sample_env sample_cfg 2 Map.empty
       = Inr (VInt 100, store_results sample_env sample_cfg 2 ''plan/2'' 1 None Map.empty)
   \<and> properties_json sample_missing_dir = None
   \<and> main_loop sample_externals [sample_missing_dir, sample_plan_dir] sample_start
       = Inr sample_kept"
proof -
  have missing: "properties_json sample_missing_dir = None"
    by (simp add: sample_missing_dir_def)
  have one: "run_planner sample_env ''plan/2'' \<noteq> 0" by (simp add: sample_env_fields)
  have rest: "main_loop sample_externals [sample_plan_dir] sample_start = Inr sample_kept"
    by (simp add: sample_keep)
  from failures_do_not_raise
    [where env = sample_env and ?cfg0.0 = "[]" and seed = 0 and files = Map.empty]
  have a: "evaluate_configuration sample_env [] 0 Map.empty = Inr (VInt 100, Map.empty)"
    using sample_env_fields(1) by blast
  from failures_do_not_raise
    [where env = sample_env and ?cfg0.0 = sample_cfg and cfg = sample_cfg and seed = "- 1"
      and files = Map.empty]
  have b: "evaluate_configuration sample_env sample_cfg (- 1) Map.empty
      = Inr (VInt 100, Map.empty)"
    using sample_env_fields(2,3) by blast
  from failures_do_not_raise
    [where env = sample_env and ?cfg0.0 = sample_cfg and cfg = sample_cfg and seed = 2
      and pd = "''plan/2''" and files = Map.empty
      and plan_dir = sample_missing_dir and ext = sample_externals and st = sample_start
      and plan_dirs = "[sample_plan_dir]"]
  have c: "evaluate_configuration sample_env sample_cfg 2 Map.empty
      = Inr (VInt 100, store_results sample_env sample_cfg 2 ''plan/2'' 1 None Map.empty)"
    and d: "main_loop sample_externals [sample_missing_dir, sample_plan_dir] sample_start
      = main_loop sample_externals [sample_plan_dir] sample_start"
    using sample_env_fields(2,5,6) one missing by simp_all
  from a b c d missing rest show ?thesis by simp
qed

lemma py_max_0_1:
  "py_max float_0_1 parsed =
     (case parsed of
        Fin q \<Rightarrow> Fin (max (3602879701896397 / 36028797018963968) q)
      | PosInf \<Rightarrow> PosInf
      | NegInf \<Rightarrow> Fin (3602879701896397 / 36028797018963968)
      | NaN \<Rightarrow> Fin (3602879701896397 / 36028797018963968))"
  by (cases parsed) (simp_all add: py_max_def float_0_1_def max_def)

text \<open>
  Claim C8. When the planner returns exit code 0 and the log holds a runtime that
  \<^verbatim>\<open>float\<close> accepts, the trial returns normally. For a finite parsed value \<open>q\<close> the
  runtime recorded is the larger of \<open>q\<close> and the float 0.1 (the rational
  3602879701896397 / 36028797018963968), and the score returned is minus that number; for
  positive infinity the runtime recorded is infinity and the score minus infinity; for
  negative infinity and NaN the runtime recorded is 0.1 and the score minus 0.1. In every
  case the runtime recorded is at least 0.1. When the exit code is not 0 the recorded runtime
  is \<^verbatim>\<open>null\<close> and the score is 100.
\<close>

theorem runtime_clamped:
  "(adapt_parameters env cfg0 = Inr cfg \<and> generate_input_files env cfg seed = Inr pd
      \<and> run_planner env pd = 0 \<and> run_log env pd = Some log_output
      \<and> re_search_runtime log_output = Some g \<and> float_of_str env g = Some parsed \<longrightarrow>
      (\<exists>recorded score.
         evaluate_configuration env cfg0 seed files
           = Inr (VFloat score, store_results env cfg seed pd 0 (Some recorded) files)
         \<and> map_of (results env cfg seed 0 (Some recorded)) ''runtime'' = Some (VFloat recorded)
         \<and> (\<forall>q. parsed = Fin q \<longrightarrow>
               recorded = Fin (max (3602879701896397 / 36028797018963968) q)
               \<and> score = Fin (- max (3602879701896397 / 36028797018963968) q))
         \<and> (parsed = PosInf \<longrightarrow> recorded = PosInf \<and> score = NegInf)
         \<and> (parsed = NegInf \<or> parsed = NaN \<longrightarrow>
               recorded = Fin (3602879701896397 / 36028797018963968)
               \<and> score = Fin (- (3602879701896397 / 36028797018963968)))
         \<and> (recorded = PosInf
              \<or> (\<exists>x. recorded = Fin x \<and> 3602879701896397 / 36028797018963968 \<le> x))))
   \<and> (adapt_parameters env cfg0 = Inr cfg \<and> generate_input_files env cfg seed = Inr pd
      \<and> run_planner env pd \<noteq> 0 \<longrightarrow>
      evaluate_configuration env cfg0 seed files
        = Inr (VInt 100, store_results env cfg seed pd (run_planner env pd) None files)
      \<and> map_of (results env cfg seed (run_planner env pd) None) ''runtime'' = Some VNone)"
proof (intro conjI impI)
  let ?c = "3602879701896397 / 36028797018963968 :: rat"
  assume a: "adapt_parameters env cfg0 = Inr cfg \<and> generate_input_files env cfg seed = Inr pd
      \<and> run_planner env pd = 0 \<and> run_log env pd = Some log_output
      \<and> re_search_runtime log_output = Some g \<and> float_of_str env g = Some parsed"
  let ?recorded = "py_max float_0_1 parsed"
  from a have "parse_runtime env pd = Inr ?recorded"
    by (simp add: parse_runtime_def)
  with a have run: "evaluate_configuration env cfg0 seed files
        = Inr (VFloat (float_neg ?recorded),
               store_results env cfg seed pd 0 (Some ?recorded) files)"
    by (simp add: evaluate_configuration_solved)
  have stored: "map_of (results env cfg seed 0 (Some ?recorded)) ''runtime''
      = Some (VFloat ?recorded)"
    by (simp add: results_def runtime_value_def)
  have fin: "\<forall>q. parsed = Fin q \<longrightarrow>
      ?recorded = Fin (max ?c q) \<and> float_neg ?recorded = Fin (- max ?c q)"
    by (simp add: py_max_0_1)
  have inf: "parsed = PosInf \<longrightarrow> ?recorded = PosInf \<and> float_neg ?recorded = NegInf"
    by (simp add: py_max_0_1)
  have low: "parsed = NegInf \<or> parsed = NaN \<longrightarrow>
      ?recorded = Fin ?c \<and> float_neg ?recorded = Fin (- ?c)"
    by (auto simp: py_max_0_1)
  have bound: "?recorded = PosInf \<or> (\<exists>x. ?recorded = Fin x \<and> ?c \<le> x)"
  proof (cases parsed)
    case (Fin q)
    with fin have "?recorded = Fin (max ?c q)" by blast
    moreover have "?c \<le> max ?c q" by (rule max.cobounded1)
    ultimately show ?thesis by blast
  next
    case PosInf
    with inf show ?thesis by blast
  next
    case NegInf
    with low have "?recorded = Fin ?c" by blast
    then show ?thesis by (blast intro: order_refl)
  next
    case NaN
    with low have "?recorded = Fin ?c" by blast
    then show ?thesis by (blast intro: order_refl)
  qed
  from run stored fin inf low bound
  show "\<exists>recorded score.
         evaluate_configuration env cfg0 seed files
           = Inr (VFloat score, store_results env cfg seed pd 0 (Some recorded) files)
         \<and> map_of (results env cfg seed 0 (Some recorded)) ''runtime'' = Some (VFloat recorded)
         \<and> (\<forall>q. parsed = Fin q \<longrightarrow>
               recorded = Fin (max ?c q) \<and> score = Fin (- max ?c q))
         \<and> (parsed = PosInf \<longrightarrow> recorded = PosInf \<and> score = NegInf)
         \<and> (parsed = NegInf \<or> parsed = NaN \<longrightarrow>
               recorded = Fin ?c \<and> score = Fin (- ?c))
         \<and> (recorded = PosInf \<or> (\<exists>x. recorded = Fin x \<and> ?c \<le> x))"
    by blast
next
  assume a: "adapt_parameters env cfg0 = Inr cfg \<and> generate_input_files env cfg seed = Inr pd
      \<and> run_planner env pd \<noteq> 0"
  then show "evaluate_configuration env cfg0 seed files
        = Inr (VInt 100, store_results env cfg seed pd (run_planner env pd) None files)"
    by (simp add: evaluate_configuration_failed_run)
  show "map_of (results env cfg seed (run_planner env pd) None) ''runtime'' = Some VNone"
    by (simp add: results_def runtime_value_def)
qed

lemma sample_env_solved:
  "generate_input_files sample_env sample_cfg 1 = Inr ''plan/1''"
  "run_planner sample_env ''plan/1'' = 0"
  "run_log sample_env ''plan/1'' = Some ''runtime: 12.5s real''"
  "float_of_str sample_env ''12.5'' = Some (Fin (25 / 2))"
  by (simp_all add: sample_env_def sample_cfg_def str_int_def digit_char_def)

theorem runtime_clamped_witness:
  "re_search_runtime ''Solution found. runtime: 0.03125s real'' = Some ''0.03125''
   \<and> float_of_str sample_env ''0.03125'' = Some (Fin (1 / 32))
   \<and> evaluate_configuration sample_env sample_cfg 0 Map.empty
       = Inr (VFloat (Fin (- (3602879701896397 / 36028797018963968))),
              [''plan/0'' \<mapsto>
                 [(''domain'', VStr ''gripper''),
                  (''parameters'', VDict [(''rooms'', VInt 2), (''balls'', VInt 4)]),
                  (''seed'', VInt 0), (''planner_exitcode'', VInt 0),
                  (''runtime'', VFloat (Fin (3602879701896397 / 36028797018963968)))]])
   \<and> re_search_runtime ''runtime: 12.5s real'' = Some ''12.5''
   \<and> float_of_str sample_env ''12.5'' = Some (Fin (25 / 2))
   \<and> evaluate_configuration sample_env sample_cfg 1 Map.empty
       = Inr (VFloat (Fin (- (25 / 2))),
              [''plan/1'' \<mapsto>
                 [(''domain'', VStr ''gripper''),
                  (''parameters'', VDict [(''rooms'', VInt 2), (''balls'', VInt 4)]),
                  (''seed'', VInt 1), (''planner_exitcode'', VInt 0),
                  (''runtime'', VFloat (Fin (25 / 2)))]])
   \<and> evaluate_configuration sample_env sample_cfg 2 Map.empty
       = Inr (VInt 100,
              [''plan/2'' \<mapsto>
                 [(''domain'', VStr ''gripper''),
                  (''parameters'', VDict [(''rooms'', VInt 2), (''balls'', VInt 4)]),
                  (''seed'', VInt 2), (''planner_exitcode'', VInt 1),
                  (''runtime'', VNone)]])"
proof -
  have search: "re_search_runtime ''Solution found. runtime: 0.03125s real'' = Some ''0.03125''"
    "re_search_runtime ''runtime: 12.5s real'' = Some ''12.5''"
    by simp_all
  have one: "run_planner sample_env ''plan/2'' \<noteq> 0" by (simp add: sample_env_fields)
  have written: "store_results sample_env sample_cfg s p e rt Map.empty
      = [p \<mapsto> [(''domain'', VStr ''gripper''),
                (''parameters'', VDict [(''rooms'', VInt 2), (''balls'', VInt 4)]),
                (''seed'', VInt s), (''planner_exitcode'', VInt e),
                (''runtime'', runtime_value rt)]]" for s p e rt
    by (simp add: store_results_def results_def sample_env_def sample_cfg_def)
  from runtime_clamped
    [where env = sample_env and ?cfg0.0 = sample_cfg and cfg = sample_cfg and seed = 0
      and pd = "''plan/0''" and log_output = "''Solution found. runtime: 0.03125s real''"
      and g = "''0.03125''" and parsed = "Fin (1 / 32)" and files = Map.empty]
    sample_env_fields search(1)
  obtain recorded score where low:
    "evaluate_configuration sample_env sample_cfg 0 Map.empty
       = Inr (VFloat score, store_results sample_env sample_cfg 0 ''plan/0'' 0 (Some recorded)
           Map.empty)"
    "recorded = Fin (max (3602879701896397 / 36028797018963968) (1 / 32))"
    "score = Fin (- max (3602879701896397 / 36028797018963968) (1 / 32))"
    by blast
  have a: "evaluate_configuration sample_env sample_cfg 0 Map.empty
       = Inr (VFloat (Fin (- (3602879701896397 / 36028797018963968))),
              [''plan/0'' \<mapsto>
                 [(''domain'', VStr ''gripper''),
                  (''parameters'', VDict [(''rooms'', VInt 2), (''balls'', VInt 4)]),
                  (''seed'', VInt 0), (''planner_exitcode'', VInt 0),
                  (''runtime'', VFloat (Fin (3602879701896397 / 36028797018963968)))]])"
    unfolding low by (simp add: written runtime_value_def)
  from runtime_clamped
    [where env = sample_env and ?cfg0.0 = sample_cfg and cfg = sample_cfg and seed = 1
      and pd = "''plan/1''" and log_output = "''runtime: 12.5s real''"
      and g = "''12.5''" and parsed = "Fin (25 / 2)" and files = Map.empty]
    sample_env_fields(2) sample_env_solved search(2)
  obtain recorded' score' where high:
    "evaluate_configuration sample_env sample_cfg 1 Map.empty
       = Inr (VFloat score', store_results sample_env sample_cfg 1 ''plan/1'' 0 (Some recorded')
           Map.empty)"
    "recorded' = Fin (max (3602879701896397 / 36028797018963968) (25 / 2))"
    "score' = Fin (- max (3602879701896397 / 36028797018963968) (25 / 2))"
    by blast
  have b: "evaluate_configuration sample_env sample_cfg 1 Map.empty
       = Inr (VFloat (Fin (- (25 / 2))),
              [''plan/1'' \<mapsto>
                 [(''domain'', VStr ''gripper''),
                  (''parameters'', VDict [(''rooms'', VInt 2), (''balls'', VInt 4)]),
                  (''seed'', VInt 1), (''planner_exitcode'', VInt 0),
                  (''runtime'', VFloat (Fin (25 / 2)))]])"
    unfolding high by (simp add: written runtime_value_def)
  from runtime_clamped
    [where env = sample_env and ?cfg0.0 = sample_cfg and cfg = sample_cfg and seed = 2
      and pd = "''plan/2''" and files = Map.empty]
    sample_env_fields one
  have c: "evaluate_configuration sample_env sample_cfg 2 Map.empty
       = Inr (VInt 100,
              [''plan/2'' \<mapsto>
                 [(''domain'', VStr ''gripper''),
                  (''parameters'', VDict [(''rooms'', VInt 2), (''balls'', VInt 4)]),
                  (''seed'', VInt 2), (''planner_exitcode'', VInt 1),
                  (''runtime'', VNone)]])"
    by (simp add: written runtime_value_def)
  from search sample_env_fields(9) sample_env_solved(4) a b c show ?thesis by blast
qed

text \<open>
  Claim C7, as stated, fails: the record is not flat, since the value under
  \<^verbatim>\<open>parameters\<close> is the dictionary of the configuration, a nested object.
\<close>

theorem run_record_not_flat:
  "\<not> flat_object (results sample_env sample_cfg 0 0 (Some float_0_1))"
  by (simp add: flat_object_def results_def)

lemma evaluate_configuration_stores:
  assumes "adapt_parameters env cfg0 = Inr cfg" "generate_input_files env cfg seed = Inr pd"
    "evaluate_configuration env cfg0 seed files = Inr (score, files')"
  shows "\<exists>exitcode runtime. files' = store_results env cfg seed pd exitcode runtime files"
  using assms unfolding evaluate_configuration_def Let_def
  by (auto split: sum.splits option.splits if_splits)

text \<open>
  Claim C7, amended. The record that \<^verbatim>\<open>store_results\<close> writes to \<^verbatim>\<open>properties.json\<close>
  of the plan directory has exactly the five keys \<^verbatim>\<open>domain\<close>, \<^verbatim>\<open>parameters\<close>,
  \<^verbatim>\<open>seed\<close>, \<^verbatim>\<open>planner_exitcode\<close> and \<^verbatim>\<open>runtime\<close>, each once; the seed is stored as an
  integer; the value of \<^verbatim>\<open>parameters\<close> is the configuration, a nested object, and the other
  four values are not objects. Every trial that passes the adaptation of its parameters and
  the generation of its input files, and returns, has left such a record in its plan
  directory.
\<close>

theorem run_record_keys:
  "set (map fst (results env cfg seed exitcode runtime))
     = {''domain'', ''parameters'', ''seed'', ''planner_exitcode'', ''runtime''}
   \<and> distinct (map fst (results env cfg seed exitcode runtime))
   \<and> map_of (results env cfg seed exitcode runtime) ''seed'' = Some (VInt seed)
   \<and> map_of (results env cfg seed exitcode runtime) ''parameters'' = Some (VDict cfg)
   \<and> flat_object
       (filter (\<lambda>kv. fst kv \<noteq> ''parameters'') (results env cfg seed exitcode runtime))
   \<and> store_results env cfg seed pd exitcode runtime files pd
       = Some (results env cfg seed exitcode runtime)
   \<and> (adapt_parameters env cfg0 = Inr cfg \<and> generate_input_files env cfg seed = Inr pd
        \<and> evaluate_configuration env cfg0 seed files = Inr (score, files') \<longrightarrow>
      (\<exists>exitcode' runtime'. files' pd = Some (results env cfg seed exitcode' runtime')))"
proof (intro conjI impI)
  show "set (map fst (results env cfg seed exitcode runtime))
     = {''domain'', ''parameters'', ''seed'', ''planner_exitcode'', ''runtime''}"
    by (simp add: results_def)
  show "distinct (map fst (results env cfg seed exitcode runtime))"
    by (simp add: results_def)
  show "map_of (results env cfg seed exitcode runtime) ''seed'' = Some (VInt seed)"
    by (simp add: results_def)
  show "map_of (results env cfg seed exitcode runtime) ''parameters'' = Some (VDict cfg)"
    by (simp add: results_def)
  show "flat_object
       (filter (\<lambda>kv. fst kv \<noteq> ''parameters'') (results env cfg seed exitcode runtime))"
    by (cases runtime) (simp_all add: flat_object_def results_def runtime_value_def)
  show "store_results env cfg seed pd exitcode runtime files pd
       = Some (results env cfg seed exitcode runtime)"
    by (simp add: store_results_def)
next
  assume "adapt_parameters env cfg0 = Inr cfg \<and> generate_input_files env cfg seed = Inr pd
        \<and> evaluate_configuration env cfg0 seed files = Inr (score, files')"
  then obtain exitcode' runtime' where
    "files' = store_results env cfg seed pd exitcode' runtime' files"
    using evaluate_configuration_stores by blast
  then have "files' pd = Some (results env cfg seed exitcode' runtime')"
    by (simp add: store_results_def)
  then show "\<exists>exitcode' runtime'. files' pd = Some (results env cfg seed exitcode' runtime')"
    by blast
qed

theorem run_record_keys_witness:
  "adapt_parameters sample_env sample_cfg = Inr sample_cfg
   \<and> generate_input_files sample_env sample_cfg 2 = Inr ''plan/2''
   \<and> evaluate_configuration sample_env sample_cfg 2 Map.empty
       = Inr (VInt 100, [''plan/2'' \<mapsto> results sample_env sample_cfg 2 1 None])
   \<and> (\<exists>exitcode' runtime'. [''plan/2'' \<mapsto> results sample_env sample_cfg 2 1 None] ''plan/2''
         = Some (results sample_env sample_cfg 2 exitcode' runtime'))
   \<and> results sample_env sample_cfg 2 1 None
       = [(''domain'', VStr ''gripper''),
          (''parameters'', VDict [(''rooms'', VInt 2), (''balls'', VInt 4)]),
          (''seed'', VInt 2), (''planner_exitcode'', VInt 1), (''runtime'', VNone)]"
proof -
  have run: "evaluate_configuration sample_env sample_cfg 2 Map.empty
       = Inr (VInt 100, [''plan/2'' \<mapsto> results sample_env sample_cfg 2 1 None])"
    using evaluate_configuration_failed_run
      [of sample_env sample_cfg sample_cfg 2 "''plan/2''" Map.empty]
    by (simp add: sample_env_fields store_results_def)
  have written: "results sample_env sample_cfg 2 1 None
       = [(''domain'', VStr ''gripper''),
          (''parameters'', VDict [(''rooms'', VInt 2), (''balls'', VInt 4)]),
          (''seed'', VInt 2), (''planner_exitcode'', VInt 1), (''runtime'', VNone)]"
    by (simp add: results_def sample_env_def sample_cfg_def runtime_value_def)
  from run_record_keys
    [where env = sample_env and ?cfg0.0 = sample_cfg and cfg = sample_cfg and seed = 2
      and pd = "''plan/2''" and files = Map.empty and score = "VInt 100"
      and files' = "[''plan/2'' \<mapsto> results sample_env sample_cfg 2 1 None]"]
    sample_env_fields(2,5) run
  have "\<exists>exitcode' runtime'. [''plan/2'' \<mapsto> results sample_env sample_cfg 2 1 None] ''plan/2''
         = Some (results sample_env sample_cfg 2 exitcode' runtime')"
    by blast
  with sample_env_fields(2,5) run written show ?thesis by blast
qed

end
